theory Spec2Isabelle
  imports Complex_Main "HOL-Library.Word"
begin

section \<open>Outcomes of a Python call\<close>

text \<open>
  A call of the source either returns a value, raises an exception, or does not come
  back. Python floats are modelled as real numbers: the arithmetic is exact, the rounding
  of the binary representation is left out, and infinities and NaN do not occur.
\<close>

datatype py_error = ZeroDivisionError | OSError | ValueError | IndexError | DecodeError

datatype 'a outcome = Diverges | Raises py_error | Returns 'a

fun bind_outcome :: "'a outcome \<Rightarrow> ('a \<Rightarrow> 'b outcome) \<Rightarrow> 'b outcome" where
  "bind_outcome Diverges f = Diverges"
| "bind_outcome (Raises e) f = Raises e"
| "bind_outcome (Returns x) f = f x"

text \<open>Width and height as the prober returns them: each is a float or \<^verbatim>\<open>None\<close>.\<close>

type_synonym dims = "real option \<times> real option"

definition Unknown :: dims where
  "Unknown = (None, None)"

text \<open>\<^verbatim>\<open>try: ... except Exception: return None, None\<close>\<close>

fun except_unknown :: "dims outcome \<Rightarrow> dims outcome" where
  "except_unknown (Raises e) = Returns Unknown"
| "except_unknown r = r"

section \<open>Aspect-fit calculation\<close>

text \<open>\<^verbatim>\<open>a / b\<close> on Python floats.\<close>

definition py_fdiv :: "real \<Rightarrow> real \<Rightarrow> real outcome" where
  "py_fdiv a b = (if b = 0 then Raises ZeroDivisionError else Returns (a / b))"

text \<open>
  \<^verbatim>\<open>calculate_fitted_dimensions(img_width, img_height, box_width, box_height, mode)\<close>.
  The mode is a string; every value other than \<^verbatim>\<open>"meet"\<close> takes the slice branch.
  The result is \<open>(new_width, new_height, offset_x, offset_y)\<close>.
\<close>

definition calculate_fitted_dimensions ::
  "real \<Rightarrow> real \<Rightarrow> real \<Rightarrow> real \<Rightarrow> string \<Rightarrow> (real \<times> real \<times> real \<times> real) outcome" where
  "calculate_fitted_dimensions img_width img_height box_width box_height mode =
     bind_outcome (py_fdiv img_width img_height) (\<lambda>img_ratio.
     bind_outcome (py_fdiv box_width box_height) (\<lambda>box_ratio.
     bind_outcome
       (if mode = ''meet'' then
          (if img_ratio > box_ratio then
             bind_outcome (py_fdiv box_width img_ratio) (\<lambda>new_height.
               Returns (box_width, new_height))
           else Returns (box_height * img_ratio, box_height))
        else
          (if img_ratio > box_ratio then Returns (box_height * img_ratio, box_height)
           else
             bind_outcome (py_fdiv box_width img_ratio) (\<lambda>new_height.
               Returns (box_width, new_height))))
       (\<lambda>(new_width, new_height).
          Returns (new_width, new_height,
                   (box_width - new_width) / 2, (box_height - new_height) / 2))))"

section \<open>Bytes, strings and the patterns of the prober\<close>

type_synonym byte = "8 word"

text \<open>\<^verbatim>\<open>int.from_bytes(bs, "big")\<close>; the empty byte string gives 0.\<close>

definition from_bytes_big :: "byte list \<Rightarrow> nat" where
  "from_bytes_big bs = foldl (\<lambda>a b. a * 256 + unat b) 0 bs"

definition png_magic :: "byte list" where
  "png_magic = [0x89, 0x50, 0x4E, 0x47, 0x0D, 0x0A, 0x1A, 0x0A]"

text \<open>
  Text is modelled over the ASCII range. \<open>is_digit\<close>, \<open>is_space\<close> and \<open>is_word\<close> are the
  classes \<^verbatim>\<open>\d\<close>, \<^verbatim>\<open>\s\<close> and \<^verbatim>\<open>\w\<close> of Python's \<^verbatim>\<open>re\<close> on ASCII characters.
\<close>

definition is_digit :: "char \<Rightarrow> bool" where
  "is_digit c = (c \<in> set ''0123456789'')"

definition is_space :: "char \<Rightarrow> bool" where
  "is_space c = (c \<in> set [CHR '' '', CHR 0x09, CHR 0x0A, CHR 0x0B, CHR 0x0C, CHR 0x0D,
                            CHR 0x1C, CHR 0x1D, CHR 0x1E, CHR 0x1F])"

definition is_word :: "char \<Rightarrow> bool" where
  "is_word c = (c \<in> set (''abcdefghijklmnopqrstuvwxyz'' @ ''ABCDEFGHIJKLMNOPQRSTUVWXYZ''
                           @ ''0123456789_''))"

definition starts_with :: "string \<Rightarrow> string \<Rightarrow> bool" where
  "starts_with p s = (take (length p) s = p)"

definition ends_with :: "string \<Rightarrow> string \<Rightarrow> bool" where
  "ends_with p s = (length p \<le> length s \<and> drop (length s - length p) s = p)"

text \<open>\<^verbatim>\<open>p in s\<close> on strings.\<close>

fun contains :: "string \<Rightarrow> string \<Rightarrow> bool" where
  "contains p [] = (p = [])"
| "contains p (c # s) = (starts_with p (c # s) \<or> contains p s)"

declare contains.simps [simp del]

text \<open>\<^verbatim>\<open>s.split(sep)\<close> for a one-character separator.\<close>

fun split_on :: "char \<Rightarrow> string \<Rightarrow> string list" where
  "split_on sep [] = [[]]"
| "split_on sep (c # s) =
     (if c = sep then [] # split_on sep s
      else (case split_on sep s of [] \<Rightarrow> [[c]] | h # t \<Rightarrow> (c # h) # t))"

definition lower_char :: "char \<Rightarrow> char" where
  "lower_char c = (if c \<in> set ''ABCDEFGHIJKLMNOPQRSTUVWXYZ''
                   then char_of (of_char c + (32::nat)) else c)"

definition lower :: "string \<Rightarrow> string" where
  "lower s = map lower_char s"

text \<open>A literal at the head of the input: the rest after it, if it is there.\<close>

definition strip_prefix :: "string \<Rightarrow> string \<Rightarrow> string option" where
  "strip_prefix p s = (if starts_with p s then Some (drop (length p) s) else None)"

text \<open>
  \<^verbatim>\<open>re.match(r"data:image/(\w+);base64,(.+)", data_uri)\<close>: the two groups. \<^verbatim>\<open>\w+\<close> is
  followed by \<^verbatim>\<open>;\<close>, which is no word character, so only the longest run of word
  characters can match; \<^verbatim>\<open>.+\<close> takes everything up to the first newline.
\<close>

definition match_data_uri :: "string \<Rightarrow> (string \<times> string) option" where
  "match_data_uri s =
     (case strip_prefix ''data:image/'' s of None \<Rightarrow> None
      | Some r \<Rightarrow>
          (let w = takeWhile is_word r in
           if w = [] then None
           else (case strip_prefix '';base64,'' (dropWhile is_word r) of None \<Rightarrow> None
                 | Some r2 \<Rightarrow>
                     (let p = takeWhile (\<lambda>c. c \<noteq> CHR 0x0A) r2 in
                      if p = [] then None else Some (w, p)))))"

text \<open>
  The pieces of
  \<^verbatim>\<open>viewBox\s*=\s*["\']\d+\s+\d+\s+(\d+\.?\d*)\s+(\d+\.?\d*)["\']\<close>.
  Every repeated class of the pattern is followed by a character outside the class, so
  the greedy match is the only one and the pattern is matched left to right without
  backtracking.
\<close>

text \<open>\<^verbatim>\<open>\d+\<close>: the digits and the rest.\<close>

definition digits1 :: "string \<Rightarrow> (string \<times> string) option" where
  "digits1 s = (if takeWhile is_digit s = [] then None
                else Some (takeWhile is_digit s, dropWhile is_digit s))"

text \<open>\<^verbatim>\<open>\s+\<close>: the rest after the white space.\<close>

definition spaces1 :: "string \<Rightarrow> string option" where
  "spaces1 s = (if takeWhile is_space s = [] then None else Some (dropWhile is_space s))"

text \<open>\<^verbatim>\<open>["\']\<close>\<close>

definition quote :: "string \<Rightarrow> string option" where
  "quote s = (case s of [] \<Rightarrow> None
              | c # r \<Rightarrow> if c = CHR 0x22 \<or> c = CHR 0x27 then Some r else None)"

text \<open>\<^verbatim>\<open>(\d+\.?\d*)\<close>: the text of the group and the rest.\<close>

definition number :: "string \<Rightarrow> (string \<times> string) option" where
  "number s =
     (case digits1 s of None \<Rightarrow> None
      | Some (ip, r) \<Rightarrow>
          (case r of
             c # r' \<Rightarrow>
               if c = CHR ''.'' then
                 Some (ip @ [c] @ takeWhile is_digit r', dropWhile is_digit r')
               else Some (ip, r)
           | [] \<Rightarrow> Some (ip, r)))"

definition match_viewBox_at :: "string \<Rightarrow> (string \<times> string) option" where
  "match_viewBox_at s =
     Option.bind (strip_prefix ''viewBox'' s) (\<lambda>r0.
     Option.bind (strip_prefix ''='' (dropWhile is_space r0)) (\<lambda>r1.
     Option.bind (quote (dropWhile is_space r1)) (\<lambda>r2.
     Option.bind (digits1 r2) (\<lambda>(minx, r3).
     Option.bind (spaces1 r3) (\<lambda>r4.
     Option.bind (digits1 r4) (\<lambda>(miny, r5).
     Option.bind (spaces1 r5) (\<lambda>r6.
     Option.bind (number r6) (\<lambda>(g1, r7).
     Option.bind (spaces1 r7) (\<lambda>r8.
     Option.bind (number r8) (\<lambda>(g2, r9).
     Option.bind (quote r9) (\<lambda>r10. Some (g1, g2))))))))))))"

text \<open>\<^verbatim>\<open>re.search\<close>: the leftmost position where the pattern matches.\<close>

fun search_viewBox :: "string \<Rightarrow> (string \<times> string) option" where
  "search_viewBox [] = match_viewBox_at []"
| "search_viewBox (c # s) =
     (case match_viewBox_at (c # s) of Some g \<Rightarrow> Some g | None \<Rightarrow> search_viewBox s)"

text \<open>
  \<^verbatim>\<open>float(g)\<close> for a group \<^verbatim>\<open>\d+\.?\d*\<close>: the decimal numeral read exactly.
\<close>

definition digit_val :: "char \<Rightarrow> nat" where
  "digit_val c = of_char c - 48"

definition nat_of_digits :: "string \<Rightarrow> nat" where
  "nat_of_digits ds = foldl (\<lambda>a c. a * 10 + digit_val c) 0 ds"

definition float_of_group :: "string \<Rightarrow> real" where
  "float_of_group g =
     (let ip = takeWhile is_digit g; fp = drop (Suc (length ip)) g
      in real (nat_of_digits ip) + real (nat_of_digits fp) / 10 ^ length fp)"

section \<open>Documents and the environment of a run\<close>

text \<open>
  An element of the parsed document, as \<^verbatim>\<open>xml.etree.ElementTree\<close> gives it: the
  qualified tag, the attribute dictionary (keys in insertion order) and the children.
  The text and tail of an element are not read by the tools and are left out.
\<close>

datatype elem = Elem (tag: string) (attrib: "(string \<times> string) list") (children: "elem list")

text \<open>\<^verbatim>\<open>elem.get(k)\<close>, \<^verbatim>\<open>elem.set(k, v)\<close> and \<^verbatim>\<open>del elem.attrib[k]\<close>.\<close>

definition attr_get :: "(string \<times> string) list \<Rightarrow> string \<Rightarrow> string option" where
  "attr_get attrs k = map_of attrs k"

definition attr_set :: "(string \<times> string) list \<Rightarrow> string \<Rightarrow> string \<Rightarrow> (string \<times> string) list" where
  "attr_set attrs k v =
     (if k \<in> fst ` set attrs then map (\<lambda>(k', v'). if k' = k then (k', v) else (k', v')) attrs
      else attrs @ [(k, v)])"

definition attr_del :: "(string \<times> string) list \<Rightarrow> string \<Rightarrow> (string \<times> string) list" where
  "attr_del attrs k = filter (\<lambda>(k', v'). k' \<noteq> k) attrs"

text \<open>
  A file that a reference resolves to: its name, its bytes (\<open>None\<close> when opening or
  reading it raises), the tree \<^verbatim>\<open>ET.parse\<close> gives for it (\<open>None\<close> when parsing raises) and
  what \<^verbatim>\<open>project_utils.get_svg_dimensions\<close> returns for it. That module is not part of
  the sources at hand, so its result is a field here.
\<close>

record asset_file =
  fname :: string
  content :: "byte list option"
  svg_tree :: "elem option"
  svg_dims :: dims

text \<open>
  What a run depends on outside the two tools: whether PIL is installed and the size
  it reports for image bytes (\<open>None\<close> when \<^verbatim>\<open>Image.open\<close> raises), the standard library's
  base64 and UTF-8 codecs (\<open>None\<close> when decoding raises), \<^verbatim>\<open>float(s)\<close> (\<open>None\<close> for
  \<^verbatim>\<open>ValueError\<close>), the formats \<^verbatim>\<open>f"{v:.1f}"\<close> and
  \<^verbatim>\<open>f"translate({x},{y}) scale({sx:.4f},{sy:.4f})"\<close>, \<^verbatim>\<open>unquote(html.unescape(href))\<close>,
  and the file system seen from the directory of the document: \<open>lookup p\<close> is the file
  that the path \<open>p\<close> resolves to, \<open>None\<close> when it does not exist.
\<close>

record env =
  has_pil :: bool
  pil_size :: "byte list \<Rightarrow> (real \<times> real) option"
  b64decode :: "string \<Rightarrow> byte list option"
  b64encode :: "byte list \<Rightarrow> string"
  utf8_decode :: "byte list \<Rightarrow> string option"
  parse_float :: "string \<Rightarrow> real option"
  fmt1 :: "real \<Rightarrow> string"
  fmt_transform :: "real \<Rightarrow> real \<Rightarrow> real \<Rightarrow> real \<Rightarrow> string"
  unquote_unescape :: "string \<Rightarrow> string"
  lookup :: "string \<Rightarrow> asset_file option"

section \<open>Dimension prober\<close>

text \<open>
  \<^verbatim>\<open>get_image_dimensions_pil\<close>: the size PIL reports, (None, None) when it raises.
\<close>

definition get_image_dimensions_pil :: "env \<Rightarrow> asset_file \<Rightarrow> dims" where
  "get_image_dimensions_pil env f =
     (case content f of None \<Rightarrow> Unknown
      | Some bs \<Rightarrow> (case pil_size env bs of None \<Rightarrow> Unknown
                    | Some (w, h) \<Rightarrow> (Some w, Some h)))"

text \<open>
  The marker loop of \<^verbatim>\<open>get_image_dimensions_basic\<close> over the bytes \<open>f\<close> of the file, the
  read position being \<open>pos\<close>. \<^verbatim>\<open>f.read(n)\<close> gives \<open>take n (drop pos f)\<close>, which is shorter
  than \<open>n\<close> at the end of the file, and moves the position by the number of bytes read.
  \<^verbatim>\<open>f.seek(d, 1)\<close> moves the position by \<open>d\<close> and raises \<^verbatim>\<open>OSError\<close> when the result is
  negative. \<open>jpeg_step\<close> is one turn of the \<^verbatim>\<open>while True\<close> loop: it ends the loop with a
  result (a \<^verbatim>\<open>break\<close> leads to \<^verbatim>\<open>return None, None\<close>) or goes on at a new position.
  Each turn uses one unit of fuel; with no fuel left the loop has not returned.
\<close>

datatype scan_step = Done "dims outcome" | Next nat

definition jpeg_step :: "byte list \<Rightarrow> nat \<Rightarrow> scan_step" where
  "jpeg_step f pos =
     (let marker = take 2 (drop pos f); pos1 = pos + length marker in
      if length marker < 2 then Done (Returns Unknown)
      else if marker ! 0 \<noteq> 0xFF then Done (Returns Unknown)
      else
        (let m = marker ! 1 in
         if m = 0xC0 \<or> m = 0xC2 then
           (let pos2 = pos1 + length (take 3 (drop pos1 f));
                hb = take 2 (drop pos2 f);
                pos3 = pos2 + length hb;
                wb = take 2 (drop pos3 f)
            in Done (Returns (Some (real (from_bytes_big wb)), Some (real (from_bytes_big hb)))))
         else if m = 0xD9 then Done (Returns Unknown)
         else if m = 0xD8 then Next pos1
         else if 0xD0 \<le> m \<and> m \<le> 0xD7 then Next pos1
         else
           (let lb = take 2 (drop pos1 f);
                pos2 = pos1 + length lb;
                len = from_bytes_big lb;
                pos3 = int pos2 + (int len - 2)
            in if pos3 < 0 then Done (Raises OSError) else Next (nat pos3))))"

fun jpeg_scan :: "nat \<Rightarrow> byte list \<Rightarrow> nat \<Rightarrow> dims outcome" where
  "jpeg_scan 0 f pos = Diverges"
| "jpeg_scan (Suc fuel) f pos =
     (case jpeg_step f pos of Done r \<Rightarrow> r | Next pos' \<Rightarrow> jpeg_scan fuel f pos')"

text \<open>
  \<^verbatim>\<open>get_image_dimensions_basic\<close> on the bytes of the file (\<open>None\<close>: opening it raises).
\<close>

definition get_image_dimensions_basic :: "nat \<Rightarrow> byte list option \<Rightarrow> dims outcome" where
  "get_image_dimensions_basic fuel opened =
     except_unknown
       (case opened of None \<Rightarrow> Raises OSError
        | Some f \<Rightarrow>
            (let data = take 64 f in
             if take 8 data = png_magic then
               Returns (Some (real (from_bytes_big (take 4 (drop 16 data)))),
                        Some (real (from_bytes_big (take 4 (drop 20 data)))))
             else if take 2 data = [0xFF, 0xD8] then jpeg_scan fuel f 2
             else Returns Unknown))"

text \<open>\<^verbatim>\<open>get_image_dimensions_from_base64\<close>; every exception gives (None, None).\<close>

definition get_image_dimensions_from_base64 :: "env \<Rightarrow> string \<Rightarrow> dims" where
  "get_image_dimensions_from_base64 env data_uri =
     (case match_data_uri data_uri of None \<Rightarrow> Unknown
      | Some (mt, b64_data) \<Rightarrow>
          (case b64decode env b64_data of None \<Rightarrow> Unknown
           | Some img_bytes \<Rightarrow>
               if has_pil env then
                 (case pil_size env img_bytes of None \<Rightarrow> Unknown
                  | Some (w, h) \<Rightarrow> (Some w, Some h))
               else if take 8 img_bytes = png_magic then
                 (Some (real (from_bytes_big (take 4 (drop 16 img_bytes)))),
                  Some (real (from_bytes_big (take 4 (drop 20 img_bytes)))))
               else Unknown))"

text \<open>
  The \<^verbatim>\<open>try\<close> block of \<^verbatim>\<open>get_image_dimensions\<close> for an inline SVG: \<open>Some\<close> of the size when
  the block returns, \<open>None\<close> when it falls through (no match, or an exception that the
  bare \<^verbatim>\<open>except\<close> swallows: no comma in the reference, undecodable payload).
\<close>

definition inline_svg_viewBox :: "env \<Rightarrow> string \<Rightarrow> dims option" where
  "inline_svg_viewBox env href =
     (case split_on (CHR '','') href of
        p0 # b64_data # ps \<Rightarrow>
          Option.bind (b64decode env b64_data) (\<lambda>bs.
          Option.bind (utf8_decode env bs) (\<lambda>svg_content.
          Option.bind (search_viewBox (take 2048 svg_content)) (\<lambda>(g1, g2).
            Some (Some (float_of_group g1), Some (float_of_group g2)))))
      | _ \<Rightarrow> None)"

text \<open>\<^verbatim>\<open>Path(name).suffix\<close>: from the last dot, unless the dot starts or ends the name.\<close>

definition path_suffix :: "string \<Rightarrow> string" where
  "path_suffix name =
     (let ext = rev (takeWhile (\<lambda>c. c \<noteq> CHR ''.'') (rev name)) in
      if CHR ''.'' \<notin> set name \<or> ext = [] \<or> Suc (length ext) = length name then []
      else CHR ''.'' # ext)"

text \<open>\<^verbatim>\<open>get_image_dimensions(href, svg_dir)\<close>\<close>

definition get_image_dimensions :: "env \<Rightarrow> nat \<Rightarrow> string \<Rightarrow> dims outcome" where
  "get_image_dimensions env fuel href =
     (if starts_with ''data:'' href then
        (case (if contains ''image/svg+xml'' href then inline_svg_viewBox env href else None) of
           Some d \<Rightarrow> Returns d
         | None \<Rightarrow> Returns (get_image_dimensions_from_base64 env href))
      else
        (case lookup env href of None \<Rightarrow> Returns Unknown
         | Some f \<Rightarrow>
             if lower (path_suffix (fname f)) = ''.svg'' then Returns (svg_dims f)
             else if has_pil env then Returns (get_image_dimensions_pil env f)
             else get_image_dimensions_basic fuel (content f)))"

section \<open>Geometry fixer\<close>

definition xlink_href :: string where
  "xlink_href = ''{http://www.w3.org/1999/xlink}href''"

text \<open>
  \<^verbatim>\<open>elem.get("{...xlink}href") or elem.get("href")\<close>: the first value unless it is
  missing or empty.
\<close>

definition get_href :: "(string \<times> string) list \<Rightarrow> string option" where
  "get_href attrs =
     (case attr_get attrs xlink_href of
        Some v \<Rightarrow> if v \<noteq> [] then Some v else attr_get attrs ''href''
      | None \<Rightarrow> attr_get attrs ''href'')"

text \<open>\<^verbatim>\<open>float(elem.get(k, 0))\<close>; \<open>None\<close> stands for \<^verbatim>\<open>ValueError\<close>.\<close>

definition float_attr :: "env \<Rightarrow> (string \<times> string) list \<Rightarrow> string \<Rightarrow> real option" where
  "float_attr env attrs k =
     (case attr_get attrs k of None \<Rightarrow> Some 0 | Some s \<Rightarrow> parse_float env s)"

text \<open>The four reads of \<^verbatim>\<open>x\<close>, \<^verbatim>\<open>y\<close>, \<^verbatim>\<open>width\<close> and \<^verbatim>\<open>height\<close>.\<close>

definition read_box :: "env \<Rightarrow> (string \<times> string) list \<Rightarrow> (real \<times> real \<times> real \<times> real) option" where
  "read_box env attrs =
     Option.bind (float_attr env attrs ''x'') (\<lambda>x.
     Option.bind (float_attr env attrs ''y'') (\<lambda>y.
     Option.bind (float_attr env attrs ''width'') (\<lambda>w.
     Option.bind (float_attr env attrs ''height'') (\<lambda>h. Some (x, y, w, h)))))"

text \<open>The writes of the \<^verbatim>\<open>if not dry_run\<close> block.\<close>

definition rewrite_box ::
  "env \<Rightarrow> (string \<times> string) list \<Rightarrow> real \<Rightarrow> real \<Rightarrow> real \<Rightarrow> real \<Rightarrow> (string \<times> string) list" where
  "rewrite_box env attrs nx ny nw nh =
     attr_del
       (attr_set (attr_set (attr_set (attr_set attrs ''x'' (fmt1 env nx)) ''y'' (fmt1 env ny))
          ''width'' (fmt1 env nw)) ''height'' (fmt1 env nh))
       ''preserveAspectRatio''"

text \<open>
  The body of the loop of \<^verbatim>\<open>fix_image_aspect_in_svg\<close> from the call of the calculator
  on, for an element whose box and directive have been read and whose asset has the
  size \<open>dims\<close>. The result is the attribute dictionary afterwards and the increment of
  \<^verbatim>\<open>fixed_count\<close>.
\<close>

definition fix_with_dims ::
  "env \<Rightarrow> bool \<Rightarrow> (string \<times> string) list \<Rightarrow> real \<times> real \<times> real \<times> real \<Rightarrow> string \<Rightarrow> dims
     \<Rightarrow> ((string \<times> string) list \<times> nat) outcome" where
  "fix_with_dims env dry_run attrs box par ds =
     (case box of (x, y, width, height) \<Rightarrow>
      case ds of
        (Some img_width, Some img_height) \<Rightarrow>
          bind_outcome
            (calculate_fitted_dimensions img_width img_height width height
               (if contains ''slice'' par then ''slice'' else ''meet''))
            (\<lambda>(new_width, new_height, offset_x, offset_y).
               if \<bar>new_width - width\<bar> < 0.5 \<and> \<bar>new_height - height\<bar> < 0.5
               then Returns (attrs, 0)
               else Returns
                 (if dry_run then attrs
                  else rewrite_box env attrs (x + offset_x) (y + offset_y) new_width new_height,
                  1))
      | _ \<Rightarrow> Returns (attrs, 0))"

text \<open>
  The body of the loop for one element whose tag ends with \<^verbatim>\<open>image\<close>. Every \<^verbatim>\<open>continue\<close>
  leaves the element as it is and counts nothing.
\<close>

definition fix_image ::
  "env \<Rightarrow> nat \<Rightarrow> bool \<Rightarrow> (string \<times> string) list \<Rightarrow> ((string \<times> string) list \<times> nat) outcome" where
  "fix_image env fuel dry_run attrs =
     (case get_href attrs of None \<Rightarrow> Returns (attrs, 0)
      | Some href \<Rightarrow>
          (case read_box env attrs of None \<Rightarrow> Returns (attrs, 0)
           | Some box \<Rightarrow>
               if fst (snd (snd box)) \<le> 0 \<or> snd (snd (snd box)) \<le> 0 then Returns (attrs, 0)
               else
                 (let par = (case attr_get attrs ''preserveAspectRatio'' of
                               None \<Rightarrow> ''xMidYMid meet'' | Some p \<Rightarrow> p)
                  in if contains ''none'' par then Returns (attrs, 0)
                     else bind_outcome (get_image_dimensions env fuel href)
                            (fix_with_dims env dry_run attrs box par))))"



section \<open>Asset embedder\<close>

text \<open>\<^verbatim>\<open>get_mime_type(filename)\<close>\<close>

definition get_mime_type :: "string \<Rightarrow> string" where
  "get_mime_type filename =
     (let ext = last (split_on (CHR ''.'') (lower filename)) in
      case map_of [(''png'', ''image/png''), (''jpg'', ''image/jpeg''), (''jpeg'', ''image/jpeg''),
                   (''gif'', ''image/gif''), (''webp'', ''image/webp''),
                   (''svg'', ''image/svg+xml'')] ext of
        Some m \<Rightarrow> m | None \<Rightarrow> ''application/octet-stream'')"

text \<open>The lines the embedder prints, by their tag and the reference they name.\<close>

datatype message = Warn_not_found string | Preview string | Ok_inlined string
  | Warn_inline_failed string | Ok_embedded string | Error_embed string | Error_parse

text \<open>
  What happens to a placement element: it stays with these attributes, or another
  element takes its place among the children of its parent.
\<close>

datatype action = Keep "(string \<times> string) list" | Replace elem

text \<open>Python's truth value of a float or \<^verbatim>\<open>None\<close>.\<close>

definition truthy :: "real option \<Rightarrow> bool" where
  "truthy v = (case v of None \<Rightarrow> False | Some r \<Rightarrow> r \<noteq> 0)"

text \<open>
  The \<^verbatim>\<open>try\<close> block that builds the grouping element for a referenced SVG file, up to
  the look-up of the parent; \<open>None\<close> when it raises.
\<close>

definition build_group :: "env \<Rightarrow> (string \<times> string) list \<Rightarrow> asset_file \<Rightarrow> elem option" where
  "build_group env attrs f =
     Option.bind (svg_tree f) (\<lambda>sub_root.
     Option.bind (read_box env attrs) (\<lambda>(x, y, w, h).
       (let sw = fst (svg_dims f); sh = snd (svg_dims f);
            sx = (if truthy sw \<and> truthy sh then w / the sw else 1);
            sy = (if truthy sw \<and> truthy sh then h / the sh else 1);
            kept = filter (\<lambda>(k, v). k \<notin> set [''x'', ''y'', ''width'', ''height'', ''href'',
                                               xlink_href, ''preserveAspectRatio'']) attrs
        in Some (Elem ''{http://www.w3.org/2000/svg}g''
                   (attr_set kept ''transform'' (fmt_transform env x y sx sy))
                   (children sub_root)))))"

text \<open>The Base64 branch: the reference is overwritten where it was read from.\<close>

definition embed_base64 ::
  "env \<Rightarrow> (string \<times> string) list \<Rightarrow> asset_file \<Rightarrow> string \<Rightarrow> action \<times> nat \<times> message list" where
  "embed_base64 env attrs f href =
     (case content f of None \<Rightarrow> (Keep attrs, 0, [Error_embed href])
      | Some bs \<Rightarrow>
          (let new_href = ''data:'' @ get_mime_type (fname f) @ '';base64,'' @ b64encode env bs
           in (Keep (if (case attr_get attrs xlink_href of None \<Rightarrow> False | Some v \<Rightarrow> v \<noteq> [])
                     then attr_set attrs xlink_href new_href
                     else attr_set attrs ''href'' new_href),
               1, [Ok_embedded href])))"

text \<open>
  The body of the second loop of \<^verbatim>\<open>embed_images_in_svg\<close> for one collected element.
  \<open>has_parent\<close> says whether the element is the child of an element of the tree at that
  moment (\<^verbatim>\<open>parent_map.get(img_elem) is not None\<close>).
\<close>

definition embed_image ::
  "env \<Rightarrow> bool \<Rightarrow> bool \<Rightarrow> (string \<times> string) list \<Rightarrow> action \<times> nat \<times> message list" where
  "embed_image env dry_run has_parent attrs =
     (case get_href attrs of None \<Rightarrow> (Keep attrs, 0, [])
      | Some href \<Rightarrow>
          if href = [] \<or> starts_with ''data:'' href then (Keep attrs, 0, [])
          else
            (case lookup env (unquote_unescape env href) of
               None \<Rightarrow> (Keep attrs, 0, [Warn_not_found href])
             | Some f \<Rightarrow>
                 if dry_run then (Keep attrs, 1, [Preview href])
                 else if lower (path_suffix (fname f)) = ''.svg'' then
                   (case build_group env attrs f of
                      Some new_elem \<Rightarrow>
                        if has_parent then (Replace new_elem, 1, [Ok_inlined href])
                        else (Keep attrs, 0, [])
                    | None \<Rightarrow>
                        (case embed_base64 env attrs f href of
                           (a, c, l) \<Rightarrow> (a, c, Warn_inline_failed href # l)))
                 else embed_base64 env attrs f href))"

text \<open>
  The two loops over the tree. The elements are collected in document order before any
  of them is changed, so the children of a placement element are processed after it
  even when it has been replaced; they are then outside the tree (\<open>in_tree\<close> is false),
  what is done to them is counted and printed, and the tree does not show it. The
  children that a grouping element receives come from the referenced file and were not
  collected.
\<close>

fun embed_elem :: "env \<Rightarrow> bool \<Rightarrow> bool \<Rightarrow> bool \<Rightarrow> elem \<Rightarrow> elem \<times> nat \<times> message list"
  and embed_elems :: "env \<Rightarrow> bool \<Rightarrow> bool \<Rightarrow> elem list \<Rightarrow> elem list \<times> nat \<times> message list" where
  "embed_elem env dry_run in_tree has_parent (Elem t attrs kids) =
     (case (if ends_with ''image'' t then embed_image env dry_run has_parent attrs
            else (Keep attrs, 0, [])) of
        (act, c0, l0) \<Rightarrow>
          (case embed_elems env dry_run (case act of Keep a \<Rightarrow> in_tree | Replace g \<Rightarrow> False) kids of
             (kids', ck, lk) \<Rightarrow>
               ((case act of Keep a \<Rightarrow> Elem t a kids' | Replace g \<Rightarrow> g), c0 + ck, l0 @ lk)))"
| "embed_elems env dry_run in_tree [] = ([], 0, [])"
| "embed_elems env dry_run in_tree (k # ks) =
     (case embed_elem env dry_run in_tree in_tree k of
        (k', c1, l1) \<Rightarrow>
          (case embed_elems env dry_run in_tree ks of
             (ks', c2, l2) \<Rightarrow> (k' # ks', c1 + c2, l1 @ l2)))"

text \<open>
  \<^verbatim>\<open>embed_images_in_svg\<close> on the parsed document (\<open>None\<close>: it does not parse). The result
  is the tree after the run, \<^verbatim>\<open>images_embedded\<close> and the lines printed; the size of the
  file that the source returns with the count is left out.
\<close>

definition embed_images_in_svg ::
  "env \<Rightarrow> bool \<Rightarrow> elem option \<Rightarrow> elem option \<times> nat \<times> message list" where
  "embed_images_in_svg env dry_run doc =
     (case doc of None \<Rightarrow> (None, 0, [Error_parse])
      | Some rt \<Rightarrow>
          (case embed_elem env dry_run True False rt of
             (rt', n, l) \<Rightarrow> (Some rt', n, l)))"

section \<open>Well-formed inputs of the signature decoders\<close>

text \<open>
  The part of a JPEG file between the start marker and the frame header, as a list of
  segments: a marker that stands alone (the start marker \<^verbatim>\<open>D8\<close> and the restart markers
  \<^verbatim>\<open>D0\<close> to \<^verbatim>\<open>D7\<close>), or a marker followed by a two-byte big-endian length and a payload,
  the length counting its own two bytes.
\<close>

datatype segment = Standalone byte | Segment byte "byte list"

definition be16 :: "nat \<Rightarrow> byte list" where
  "be16 n = [of_nat (n div 256), of_nat (n mod 256)]"

fun encode_segment :: "segment \<Rightarrow> byte list" where
  "encode_segment (Standalone m) = [0xFF, m]"
| "encode_segment (Segment m payload) = [0xFF, m] @ be16 (length payload + 2) @ payload"

fun valid_segment :: "segment \<Rightarrow> bool" where
  "valid_segment (Standalone m) = (m = 0xD8 \<or> (0xD0 \<le> m \<and> m \<le> 0xD7))"
| "valid_segment (Segment m payload) =
     (m \<noteq> 0xC0 \<and> m \<noteq> 0xC2 \<and> m \<noteq> 0xD9 \<and> m \<noteq> 0xD8 \<and> \<not> (0xD0 \<le> m \<and> m \<le> 0xD7)
      \<and> length payload + 2 < 65536)"

definition jpeg_prefix :: "segment list \<Rightarrow> byte list" where
  "jpeg_prefix segs = [0xFF, 0xD8] @ concat (map encode_segment segs)"

section \<open>The library functions on plain inputs\<close>

text \<open>
  The theorems below hold for every environment. To run the tools on concrete
  documents, the library functions are given here for the inputs that the examples
  use: Base64 in the standard alphabet with padding, text in the ASCII range, floats
  written as plain decimal numerals, and fixed-point formats rounded half to even on
  the exact value.
\<close>

definition b64_alphabet :: string where
  "b64_alphabet = ''ABCDEFGHIJKLMNOPQRSTUVWXYZ'' @ ''abcdefghijklmnopqrstuvwxyz'' @ ''0123456789+/''"

definition b64_index :: "char \<Rightarrow> nat option" where
  "b64_index c =
     (let n = (of_char c :: nat) in
      if 65 \<le> n \<and> n \<le> 90 then Some (n - 65)
      else if 97 \<le> n \<and> n \<le> 122 then Some (n - 71)
      else if 48 \<le> n \<and> n \<le> 57 then Some (n + 4)
      else if c = CHR ''+'' then Some 62
      else if c = CHR ''/'' then Some 63
      else None)"

definition b64_quad :: "char \<Rightarrow> char \<Rightarrow> char \<Rightarrow> char \<Rightarrow> byte list option" where
  "b64_quad a b c d =
     Option.bind (b64_index a) (\<lambda>i. Option.bind (b64_index b) (\<lambda>j.
     Option.bind (b64_index c) (\<lambda>k. Option.bind (b64_index d) (\<lambda>l.
       (let n = ((i * 64 + j) * 64 + k) * 64 + l
        in Some [of_nat (n div 65536), of_nat (n div 256 mod 256), of_nat (n mod 256)])))))"

definition b64_final :: "char \<Rightarrow> char \<Rightarrow> char \<Rightarrow> char \<Rightarrow> byte list option" where
  "b64_final a b c d =
     (if d = CHR ''='' then
        (if c = CHR ''='' then
           Option.bind (b64_index a) (\<lambda>i. Option.bind (b64_index b) (\<lambda>j.
             Some [of_nat ((i * 64 + j) div 16)]))
         else
           Option.bind (b64_index a) (\<lambda>i. Option.bind (b64_index b) (\<lambda>j.
           Option.bind (b64_index c) (\<lambda>k.
             (let n = (i * 64 + j) * 64 + k
              in Some [of_nat (n div 1024), of_nat (n div 4 mod 256)])))))
      else b64_quad a b c d)"

fun std_b64decode :: "string \<Rightarrow> byte list option" where
  "std_b64decode (a # b # c # d # r) =
     (if r = [] then b64_final a b c d
      else (case b64_quad a b c d of None \<Rightarrow> None
            | Some bs \<Rightarrow> (case std_b64decode r of None \<Rightarrow> None
                          | Some bs' \<Rightarrow> Some (bs @ bs'))))"
| "std_b64decode [] = Some []"
| "std_b64decode s = None"

definition b64_char :: "nat \<Rightarrow> char" where
  "b64_char n = b64_alphabet ! n"

fun std_b64encode :: "byte list \<Rightarrow> string" where
  "std_b64encode [] = []"
| "std_b64encode [a] =
     (let n = unat a * 16 in [b64_char (n div 64), b64_char (n mod 64), CHR ''='', CHR ''=''])"
| "std_b64encode [a, b] =
     (let n = (unat a * 256 + unat b) * 4
      in [b64_char (n div 4096), b64_char (n div 64 mod 64), b64_char (n mod 64), CHR ''=''])"
| "std_b64encode (a # b # c # r) =
     (let n = (unat a * 256 + unat b) * 256 + unat c
      in [b64_char (n div 262144), b64_char (n div 4096 mod 64), b64_char (n div 64 mod 64),
          b64_char (n mod 64)] @ std_b64encode r)"

definition std_utf8_decode :: "byte list \<Rightarrow> string option" where
  "std_utf8_decode bs =
     (if list_all (\<lambda>b. b < 0x80) bs then Some (map (\<lambda>b. char_of (unat b)) bs) else None)"

text \<open>\<^verbatim>\<open>float(s)\<close> for an optional minus sign and a numeral \<^verbatim>\<open>\d+\.?\d*\<close>.\<close>

definition std_float :: "string \<Rightarrow> real option" where
  "std_float s =
     (let neg = starts_with ''-'' s; t = (if neg then drop 1 s else s) in
      case number t of
        Some (g, r) \<Rightarrow> if r = [] then Some (if neg then - float_of_group g else float_of_group g)
                      else None
      | None \<Rightarrow> None)"

definition digit_char :: "nat \<Rightarrow> char" where
  "digit_char n = ''0123456789'' ! n"

fun show_nat :: "nat \<Rightarrow> string" where
  "show_nat n = (if n < 10 then [digit_char n] else show_nat (n div 10) @ [digit_char (n mod 10)])"

declare show_nat.simps [simp del]

definition round_half_even :: "real \<Rightarrow> int" where
  "round_half_even y =
     (let n = \<lfloor>y\<rfloor>; d = y - of_int n in
      if d < 1 / 2 then n else if 1 / 2 < d then n + 1 else if even n then n else n + 1)"

text \<open>\<^verbatim>\<open>f"{v:.Nf}"\<close> for \<open>N\<close> places, \<open>N\<close> at least 1.\<close>

definition std_fmt_fixed :: "nat \<Rightarrow> real \<Rightarrow> string" where
  "std_fmt_fixed places v =
     (let k = nat (round_half_even (\<bar>v\<bar> * 10 ^ places));
          fp = show_nat (k mod 10 ^ places)
      in (if v < 0 then ''-'' else []) @ show_nat (k div 10 ^ places) @ ''.''
           @ replicate (places - length fp) (CHR ''0'') @ fp)"

text \<open>
  The transform of a grouping element. \<^verbatim>\<open>{x}\<close> is the shortest numeral that reads back
  as the float, which for a value with one decimal place is that numeral.
\<close>

definition std_fmt_transform :: "real \<Rightarrow> real \<Rightarrow> real \<Rightarrow> real \<Rightarrow> string" where
  "std_fmt_transform x y sx sy =
     ''translate('' @ std_fmt_fixed 1 x @ '','' @ std_fmt_fixed 1 y @ '') scale(''
       @ std_fmt_fixed 4 sx @ '','' @ std_fmt_fixed 4 sy @ '')''"

text \<open>
  An environment without PIL, with these library functions, references that need no
  unquoting, the Base64 decoder \<open>dec\<close> and the files \<open>fs\<close>.
\<close>

definition plain_env :: "(string \<Rightarrow> byte list option) \<Rightarrow> (string \<Rightarrow> asset_file option) \<Rightarrow> env" where
  "plain_env dec fs =
     \<lparr>has_pil = False, pil_size = (\<lambda>bs. None), b64decode = dec,
      b64encode = std_b64encode, utf8_decode = std_utf8_decode, parse_float = std_float,
      fmt1 = std_fmt_fixed 1, fmt_transform = std_fmt_transform,
      unquote_unescape = (\<lambda>s. s), lookup = fs\<rparr>"

section \<open>Conditions on texts and documents\<close>





section \<open>Example files\<close>

text \<open>
  The first 24 bytes of two PNG files: the magic bytes, the length and type of the
  IHDR chunk, the width and the height. \<open>wide_png\<close> is 200 by 100, \<open>tall_png\<close> is 1 by
  100.
\<close>

definition wide_png :: "byte list" where
  "wide_png = png_magic @ [0, 0, 0, 13, 0x49, 0x48, 0x44, 0x52] @ [0, 0, 0, 200] @ [0, 0, 0, 100]"

definition tall_png :: "byte list" where
  "tall_png = png_magic @ [0, 0, 0, 13, 0x49, 0x48, 0x44, 0x52] @ [0, 0, 0, 1] @ [0, 0, 0, 100]"

definition raster_file :: "string \<Rightarrow> byte list \<Rightarrow> asset_file" where
  "raster_file name bs = \<lparr>fname = name, content = Some bs, svg_tree = None, svg_dims = Unknown\<rparr>"

text \<open>A directory that holds the two files and nothing else.\<close>

definition two_pngs :: "string \<Rightarrow> asset_file option" where
  "two_pngs p = (if p = ''wide.png'' then Some (raster_file ''wide.png'' wide_png)
                 else if p = ''tall.png'' then Some (raster_file ''tall.png'' tall_png)
                 else None)"

text \<open>
  An element none of whose placement elements, at any depth, refers to a file: the
  reference is missing, empty or inline.
\<close>

fun no_file_refs :: "elem \<Rightarrow> bool" where
  "no_file_refs (Elem t attrs kids) =
     ((\<not> ends_with ''image'' t
       \<or> (case get_href attrs of None \<Rightarrow> True | Some h \<Rightarrow> h = [] \<or> starts_with ''data:'' h))
      \<and> list_all no_file_refs kids)"

text \<open>
  Two directories with an SVG file beside \<^verbatim>\<open>wide.png\<close>. In the first the SVG file
  places \<^verbatim>\<open>wide.png\<close> itself; in the second it holds a rectangle only.
\<close>

definition svg_file :: "string \<Rightarrow> elem \<Rightarrow> asset_file" where
  "svg_file name t = \<lparr>fname = name, content = Some [], svg_tree = Some t, svg_dims = Unknown\<rparr>"

definition nested_files :: "string \<Rightarrow> asset_file option" where
  "nested_files p =
     (if p = ''icon.svg'' then
        Some (svg_file ''icon.svg''
               (Elem ''{http://www.w3.org/2000/svg}svg'' []
                  [Elem ''{http://www.w3.org/2000/svg}image'' [(''href'', ''wide.png'')] []]))
      else if p = ''wide.png'' then Some (raster_file ''wide.png'' wide_png)
      else None)"

definition shape_files :: "string \<Rightarrow> asset_file option" where
  "shape_files p =
     (if p = ''shape.svg'' then
        Some (svg_file ''shape.svg''
               (Elem ''{http://www.w3.org/2000/svg}svg'' []
                  [Elem ''{http://www.w3.org/2000/svg}rect'' [(''width'', ''4'')] []]))
      else if p = ''wide.png'' then Some (raster_file ''wide.png'' wide_png)
      else None)"

text \<open>Documents that place these files.\<close>

definition svg_tag :: string where
  "svg_tag = ''{http://www.w3.org/2000/svg}svg''"

definition image_tag :: string where
  "image_tag = ''{http://www.w3.org/2000/svg}image''"

definition nested_doc :: elem where
  "nested_doc =
     Elem svg_tag []
       [Elem image_tag [(''href'', ''icon.svg''), (''x'', ''10''), (''y'', ''20''),
                        (''width'', ''50''), (''height'', ''50'')] []]"

definition shape_doc :: elem where
  "shape_doc =
     Elem svg_tag []
       [Elem image_tag [(''id'', ''a''), (''href'', ''shape.svg''), (''x'', ''10''), (''y'', ''20''),
                        (''width'', ''50''), (''height'', ''50'')] [],
        Elem image_tag [(''href'', ''wide.png'')] [],
        Elem image_tag [(''href'', ''missing.png'')] []]"





section \<open>Properties of the calculator\<close>

lemma calc_meet_pos:
  assumes "0 < iw" "0 < ih" "0 < bw" "0 < bh"
  shows "calculate_fitted_dimensions iw ih bw bh ''meet'' =
           (if iw / ih > bw / bh
            then Returns (bw, bw / (iw / ih), 0, (bh - bw / (iw / ih)) / 2)
            else Returns (bh * (iw / ih), bh, (bw - bh * (iw / ih)) / 2, 0))"
  using assms by (simp add: calculate_fitted_dimensions_def py_fdiv_def)

lemma calc_slice_pos:
  assumes "0 < iw" "0 < ih" "0 < bw" "0 < bh"
  shows "calculate_fitted_dimensions iw ih bw bh ''slice'' =
           (if iw / ih > bw / bh
            then Returns (bh * (iw / ih), bh, (bw - bh * (iw / ih)) / 2, 0)
            else Returns (bw, bw / (iw / ih), 0, (bh - bw / (iw / ih)) / 2))"
  using assms by (simp add: calculate_fitted_dimensions_def py_fdiv_def)

text \<open>
  Claim C1. For positive intrinsic and box sizes, meet takes the box width and derives
  the height when the intrinsic ratio exceeds the box ratio, and otherwise takes the
  box height and derives the width; slice selects the other branch; both offsets are
  half of the box dimension minus the fitted dimension and are not clamped. An asset
  of ratio 2:1 in a box of 100 by 100 gives 100 by 50 at (0, 25) under meet and 200 by
  100 at (-50, 0) under slice.
\<close>

theorem fit_branch_selection:
  assumes "0 < iw" "0 < ih" "0 < bw" "0 < bh"
  shows "calculate_fitted_dimensions iw ih bw bh ''meet'' =
           (if iw / ih > bw / bh
            then Returns (bw, bw / (iw / ih), (bw - bw) / 2, (bh - bw / (iw / ih)) / 2)
            else Returns (bh * (iw / ih), bh, (bw - bh * (iw / ih)) / 2, (bh - bh) / 2))
       \<and> calculate_fitted_dimensions iw ih bw bh ''slice'' =
           (if iw / ih > bw / bh
            then Returns (bh * (iw / ih), bh, (bw - bh * (iw / ih)) / 2, (bh - bh) / 2)
            else Returns (bw, bw / (iw / ih), (bw - bw) / 2, (bh - bw / (iw / ih)) / 2))
       \<and> calculate_fitted_dimensions 2 1 100 100 ''meet'' = Returns (100, 50, 0, 25)
       \<and> calculate_fitted_dimensions 2 1 100 100 ''slice'' = Returns (200, 100, - 50, 0)"
proof -
  have ex1: "calculate_fitted_dimensions 2 1 100 100 ''meet'' = Returns (100, 50, 0, 25)"
    by (simp add: calculate_fitted_dimensions_def py_fdiv_def)
  have ex2: "calculate_fitted_dimensions 2 1 100 100 ''slice'' = Returns (200, 100, - 50, 0)"
    by (simp add: calculate_fitted_dimensions_def py_fdiv_def)
  show ?thesis
    using calc_meet_pos [OF assms] calc_slice_pos [OF assms] ex1 ex2 by simp
qed

theorem fit_branch_selection_witness:
  "calculate_fitted_dimensions 4 1 100 50 ''meet'' = Returns (100, 25, 0, 25 / 2)
   \<and> calculate_fitted_dimensions 4 1 100 50 ''slice'' = Returns (200, 50, - 50, 0)
   \<and> calculate_fitted_dimensions 1 2 100 100 ''meet'' = Returns (50, 100, 25, 0)
   \<and> calculate_fitted_dimensions 1 2 100 100 ''slice'' = Returns (100, 200, 0, - 50)"
  using fit_branch_selection [of 4 1 100 50] fit_branch_selection [of 1 2 100 100] by simp



section \<open>Properties of the signature decoders\<close>

lemma from_bytes_big_2: "from_bytes_big [a, b] = unat a * 256 + unat b"
  by (simp add: from_bytes_big_def)

lemma from_bytes_big_4:
  "from_bytes_big [a, b, c, d] = unat a * 2 ^ 24 + unat b * 2 ^ 16 + unat c * 2 ^ 8 + unat d"
  by (simp add: from_bytes_big_def)

lemma from_bytes_big_be16: "n < 65536 \<Longrightarrow> from_bytes_big (be16 n) = n"
proof -
  assume n: "n < 65536"
  then have "n div 256 < 256" by simp
  then have a: "unat (of_nat (n div 256) :: byte) = n div 256"
    by (simp add: unat_of_nat)
  have b: "unat (of_nat (n mod 256) :: byte) = n mod 256"
    by (simp add: unat_of_nat)
  show ?thesis
    by (simp add: be16_def from_bytes_big_2 a b)
qed

lemma jpeg_step_segment:
  assumes "valid_segment sg"
  shows "jpeg_step (pre @ encode_segment sg @ rest) (length pre)
           = Next (length pre + length (encode_segment sg))"
proof (cases sg)
  case (Standalone m)
  with assms show ?thesis
    by (auto simp add: jpeg_step_def Let_def)
next
  case (Segment m payload)
  with assms have len: "length payload + 2 < 65536" by simp
  have lb: "take 2 (drop (length pre + 2) (pre @ [0xFF, m] @ be16 (length payload + 2) @ payload @ rest))
              = be16 (length payload + 2)"
    by (simp add: be16_def)
  from Segment assms show ?thesis
    using from_bytes_big_be16 [OF len]
    by (simp add: jpeg_step_def Let_def lb) (simp add: be16_def)
qed

lemma jpeg_scan_segments:
  assumes "list_all valid_segment segs"
  shows "jpeg_scan (length segs + fuel) (pre @ concat (map encode_segment segs) @ rest) (length pre)
           = jpeg_scan fuel (pre @ concat (map encode_segment segs) @ rest)
               (length pre + length (concat (map encode_segment segs)))"
  using assms
proof (induction segs arbitrary: pre)
  case Nil
  then show ?case by simp
next
  case (Cons sg segs)
  then have v: "valid_segment sg" and vs: "list_all valid_segment segs" by simp_all
  define g where "g = pre @ concat (map encode_segment (sg # segs)) @ rest"
  have g: "g = (pre @ encode_segment sg) @ concat (map encode_segment segs) @ rest"
    by (simp add: g_def)
  have st: "jpeg_step g (length pre) = Next (length (pre @ encode_segment sg))"
    using jpeg_step_segment [OF v, of pre "concat (map encode_segment segs) @ rest"]
    by (simp add: g_def)
  have "jpeg_scan (length (sg # segs) + fuel) g (length pre)
          = jpeg_scan (length segs + fuel) g (length (pre @ encode_segment sg))"
    by (simp add: st)
  also have "\<dots> = jpeg_scan fuel g
                     (length (pre @ encode_segment sg) + length (concat (map encode_segment segs)))"
    unfolding g using Cons.IH [OF vs, of "pre @ encode_segment sg"] .
  finally have e: "jpeg_scan (length (sg # segs) + fuel) g (length pre)
          = jpeg_scan fuel g
              (length (pre @ encode_segment sg) + length (concat (map encode_segment segs)))" .
  have p: "length (pre @ encode_segment sg) + length (concat (map encode_segment segs))
             = length pre + length (concat (map encode_segment (sg # segs)))"
    by simp
  show ?case using e unfolding p g_def .
qed

lemma jpeg_step_frame:
  assumes "m = 0xC0 \<or> m = 0xC2"
  shows "jpeg_step (pre @ [0xFF, m, lh, ll, p, hh, hl, wh, wl] @ rest) (length pre)
           = Done (Returns (Some (real (unat wh * 256 + unat wl)),
                            Some (real (unat hh * 256 + unat hl))))"
  using assms by (auto simp add: jpeg_step_def Let_def from_bytes_big_2)

lemma jpeg_step_eoi:
  "jpeg_step (pre @ [0xFF, 0xD9] @ rest) (length pre) = Done (Returns Unknown)"
  by (simp add: jpeg_step_def Let_def)


lemma basic_jpeg_prefix:
  assumes v: "list_all valid_segment segs" and fuel: "length segs < fuel"
    and st: "jpeg_step (jpeg_prefix segs @ tail) (length (jpeg_prefix segs)) = Done r"
  shows "get_image_dimensions_basic fuel (Some (jpeg_prefix segs @ tail)) = except_unknown r"
proof -
  define f where "f = jpeg_prefix segs @ tail"
  have f: "f = [0xFF, 0xD8] @ concat (map encode_segment segs) @ tail"
    by (simp add: f_def jpeg_prefix_def)
  from fuel obtain k where "fuel = Suc (length segs + k)"
    using less_imp_Suc_add by blast
  then have k: "fuel = length segs + Suc k" by simp
  have pre2: "length [0xFF::byte, 0xD8] = 2" by simp
  have lp: "length (jpeg_prefix segs) = 2 + length (concat (map encode_segment segs))"
    by (simp add: jpeg_prefix_def)
  have "jpeg_scan (length segs + Suc k) f (length [0xFF::byte, 0xD8])
          = jpeg_scan (Suc k) f (length [0xFF::byte, 0xD8] + length (concat (map encode_segment segs)))"
    unfolding f by (rule jpeg_scan_segments [OF v])
  then have "jpeg_scan fuel f 2 = jpeg_scan (Suc k) f (length (jpeg_prefix segs))"
    unfolding pre2 k lp .
  also have "\<dots> = r"
    using st by (simp add: f_def)
  finally have scan: "jpeg_scan fuel f 2 = r" .
  have "take 8 (take 64 f) \<noteq> png_magic"
    by (simp add: f png_magic_def)
  moreover have "take 2 (take 64 f) = [0xFF, 0xD8]"
    by (simp add: f)
  ultimately show ?thesis
    using scan by (simp add: get_image_dimensions_basic_def Let_def f_def)
qed

lemma basic_png:
  assumes "length chunk_head = 8"
  shows "get_image_dimensions_basic fuel
           (Some (png_magic @ chunk_head @ [pa, pb, pc, pd] @ [qa, qb, qc, qd] @ rest))
         = Returns (Some (real (unat pa * 2 ^ 24 + unat pb * 2 ^ 16 + unat pc * 2 ^ 8 + unat pd)),
                    Some (real (unat qa * 2 ^ 24 + unat qb * 2 ^ 16 + unat qc * 2 ^ 8 + unat qd)))"
proof -
  define f where "f = png_magic @ chunk_head @ [pa, pb, pc, pd] @ [qa, qb, qc, qd] @ rest"
  have l: "length png_magic = 8" by (simp add: png_magic_def)
  have m: "take 8 (take 64 f) = png_magic"
    by (simp add: f_def l)
  have w: "take 4 (drop 16 (take 64 f)) = [pa, pb, pc, pd]"
    by (simp add: f_def l assms drop_take)
  have h: "take 4 (drop 20 (take 64 f)) = [qa, qb, qc, qd]"
    by (simp add: f_def l assms drop_take)
  show ?thesis
    unfolding f_def [symmetric] get_image_dimensions_basic_def Let_def option.case m w h
    by (simp add: from_bytes_big_4)
qed

text \<open>
  Claim C3. The file decoder returns, for a PNG file (the eight magic bytes, the eight
  bytes of chunk length and type, then width and height), the big-endian 32-bit
  integers at offsets 16 and 20. For a JPEG file it scans the markers from offset 2:
  markers \<^verbatim>\<open>D8\<close> and \<^verbatim>\<open>D0\<close> to \<^verbatim>\<open>D7\<close> are passed without a length, every other segment is
  passed by its two-byte length, and at a \<^verbatim>\<open>C0\<close> or \<^verbatim>\<open>C2\<close> segment the two-byte big-endian
  height and width after the length and the precision byte are returned as (width,
  height); a \<^verbatim>\<open>D9\<close> marker ends the scan with Unknown. One unit of fuel per segment and
  one for the last marker is enough.
\<close>

theorem raster_signature_decoder:
  "(length chunk_head = 8 \<longrightarrow>
      get_image_dimensions_basic fuel
        (Some (png_magic @ chunk_head @ [pa, pb, pc, pd] @ [qa, qb, qc, qd] @ rest))
      = Returns (Some (real (unat pa * 2 ^ 24 + unat pb * 2 ^ 16 + unat pc * 2 ^ 8 + unat pd)),
                 Some (real (unat qa * 2 ^ 24 + unat qb * 2 ^ 16 + unat qc * 2 ^ 8 + unat qd))))
   \<and> (list_all valid_segment segs \<and> length segs < fuel \<and> (m = 0xC0 \<or> m = 0xC2) \<longrightarrow>
      get_image_dimensions_basic fuel
        (Some (jpeg_prefix segs @ [0xFF, m, lh, ll, p, hh, hl, wh, wl] @ rest))
      = Returns (Some (real (unat wh * 256 + unat wl)), Some (real (unat hh * 256 + unat hl))))
   \<and> (list_all valid_segment segs \<and> length segs < fuel \<longrightarrow>
      get_image_dimensions_basic fuel (Some (jpeg_prefix segs @ [0xFF, 0xD9] @ rest))
      = Returns Unknown)"
proof (intro conjI impI)
  assume "length chunk_head = 8"
  then show "get_image_dimensions_basic fuel
        (Some (png_magic @ chunk_head @ [pa, pb, pc, pd] @ [qa, qb, qc, qd] @ rest))
      = Returns (Some (real (unat pa * 2 ^ 24 + unat pb * 2 ^ 16 + unat pc * 2 ^ 8 + unat pd)),
                 Some (real (unat qa * 2 ^ 24 + unat qb * 2 ^ 16 + unat qc * 2 ^ 8 + unat qd)))"
    by (rule basic_png)
next
  assume a: "list_all valid_segment segs \<and> length segs < fuel \<and> (m = 0xC0 \<or> m = 0xC2)"
  then have m: "m = 0xC0 \<or> m = 0xC2" by simp
  show "get_image_dimensions_basic fuel
        (Some (jpeg_prefix segs @ [0xFF, m, lh, ll, p, hh, hl, wh, wl] @ rest))
      = Returns (Some (real (unat wh * 256 + unat wl)), Some (real (unat hh * 256 + unat hl)))"
    using basic_jpeg_prefix [of segs fuel "[0xFF, m, lh, ll, p, hh, hl, wh, wl] @ rest",
        OF _ _ jpeg_step_frame [OF m]] a
    by simp
next
  assume a: "list_all valid_segment segs \<and> length segs < fuel"
  show "get_image_dimensions_basic fuel (Some (jpeg_prefix segs @ [0xFF, 0xD9] @ rest))
      = Returns Unknown"
    using basic_jpeg_prefix [of segs fuel "[0xFF, 0xD9] @ rest", OF _ _ jpeg_step_eoi] a
    by simp
qed

theorem raster_signature_decoder_witness:
  "get_image_dimensions_basic 3
     (Some (png_magic @ [0, 0, 0, 13, 0x49, 0x48, 0x44, 0x52] @ [0, 0, 1, 0] @ [0, 0, 0, 0x80]
            @ [8, 6, 0, 0, 0]))
     = Returns (Some 256, Some 128)
   \<and> get_image_dimensions_basic 3
     (Some (jpeg_prefix [Segment 0xE0 [0x4A, 0x46], Standalone 0xD0]
            @ [0xFF, 0xC2, 0, 17, 8, 0, 50, 1, 4] @ [8, 6, 0, 0, 0]))
     = Returns (Some 260, Some 50)
   \<and> get_image_dimensions_basic 3
     (Some (jpeg_prefix [Segment 0xE0 [0x4A, 0x46], Standalone 0xD0] @ [0xFF, 0xD9]
            @ [8, 6, 0, 0, 0]))
     = Returns Unknown"
  using raster_signature_decoder [where chunk_head = "[0, 0, 0, 13, 0x49, 0x48, 0x44, 0x52]"
      and fuel = 3 and pa = 0 and pb = 0 and pc = 1 and pd = 0
      and qa = 0 and qb = 0 and qc = 0 and qd = "0x80"
      and rest = "[8, 6, 0, 0, 0]" and segs = "[Segment 0xE0 [0x4A, 0x46], Standalone 0xD0]"
      and m = "0xC2" and lh = 0 and ll = 17 and p = 8 and hh = 0 and hl = 50
      and wh = 1 and wl = 4]
  by simp


lemma jpeg_step_truncated: "jpeg_step [0xFF, 0xD8, 0xFF, 0xE0] 2 = Next 2"
  by (simp add: jpeg_step_def Let_def from_bytes_big_def)

lemma jpeg_scan_truncated: "jpeg_scan fuel [0xFF, 0xD8, 0xFF, 0xE0] 2 = Diverges"
  by (induction fuel) (simp_all add: jpeg_step_truncated)

lemma basic_truncated_jpeg:
  "get_image_dimensions_basic fuel (Some [0xFF, 0xD8, 0xFF, 0xE0]) = Diverges"
  by (simp add: get_image_dimensions_basic_def Let_def jpeg_scan_truncated png_magic_def)

lemma basic_truncated_png:
  "get_image_dimensions_basic fuel (Some png_magic) = Returns (Some 0, Some 0)"
  by (simp add: get_image_dimensions_basic_def Let_def png_magic_def from_bytes_big_def)

text \<open>
  Claim C8 asks that the prober's extraction is total and gives Unknown for every
  truncated stream. The file decoder does not return on a JPEG file that ends right
  after a segment marker: the length is read as the empty byte string, which is 0, the
  seek goes back two bytes and the same marker is read again. On a PNG file that ends
  after the magic bytes it returns the size 0 by 0.
\<close>

theorem basic_decoder_not_total:
  "get_image_dimensions_basic fuel (Some [0xFF, 0xD8, 0xFF, 0xE0]) = Diverges
   \<and> get_image_dimensions_basic fuel (Some png_magic) = Returns (Some 0, Some 0)"
  by (rule conjI [OF basic_truncated_jpeg basic_truncated_png])

section \<open>Properties of the prober on inline references\<close>

lemma inline_jpeg_bytes:
  "std_b64decode ''/9j/wAARCAAyAGQD''
     = Some [0xFF, 0xD8, 0xFF, 0xC0, 0x00, 0x11, 0x08, 0x00, 0x32, 0x00, 0x64, 0x03]"
  by (simp add: b64_quad_def b64_final_def b64_index_def)

lemma inline_jpeg_match:
  "match_data_uri ''data:image/jpeg;base64,/9j/wAARCAAyAGQD'' = Some (''jpeg'', ''/9j/wAARCAAyAGQD'')"
  by code_simp

lemma inline_jpeg_is_data:
  "starts_with ''data:'' ''data:image/jpeg;base64,/9j/wAARCAAyAGQD''
   \<and> \<not> contains ''image/svg+xml'' ''data:image/jpeg;base64,/9j/wAARCAAyAGQD''"
  by code_simp

lemma plain_env_sel:
  "has_pil (plain_env dec fs) = False"
  "pil_size (plain_env dec fs) = (\<lambda>bs. None)"
  "b64decode (plain_env dec fs) = dec"
  "b64encode (plain_env dec fs) = std_b64encode"
  "utf8_decode (plain_env dec fs) = std_utf8_decode"
  "parse_float (plain_env dec fs) = std_float"
  "fmt1 (plain_env dec fs) = std_fmt_fixed 1"
  "fmt_transform (plain_env dec fs) = std_fmt_transform"
  "unquote_unescape (plain_env dec fs) = (\<lambda>s. s)"
  "lookup (plain_env dec fs) = fs"
  by (simp_all add: plain_env_def)

lemma inline_jpeg_from_base64:
  "get_image_dimensions_from_base64 (plain_env std_b64decode (\<lambda>p. None))
     ''data:image/jpeg;base64,/9j/wAARCAAyAGQD'' = Unknown"
  unfolding get_image_dimensions_from_base64_def inline_jpeg_match option.case prod.case
    plain_env_sel inline_jpeg_bytes
  by (simp add: png_magic_def)

lemma file_jpeg_decoded:
  "get_image_dimensions_basic (Suc fuel)
     (Some [0xFF, 0xD8, 0xFF, 0xC0, 0x00, 0x11, 0x08, 0x00, 0x32, 0x00, 0x64, 0x03])
     = Returns (Some 100, Some 50)"
  by (simp add: get_image_dimensions_basic_def Let_def png_magic_def jpeg_step_def
      from_bytes_big_def)

text \<open>
  Claim C4 asks that an inline raster payload is decoded by the PNG and the JPEG
  signature decoders when PIL is missing. For an inline JPEG the prober returns
  Unknown; the payload decodes to the bytes of a JPEG header whose frame is 100 by 50,
  which the file decoder reads from a file.
\<close>

theorem inline_jpeg_unknown_without_pil:
  "get_image_dimensions (plain_env std_b64decode (\<lambda>p. None)) fuel
     ''data:image/jpeg;base64,/9j/wAARCAAyAGQD'' = Returns Unknown
   \<and> std_b64decode ''/9j/wAARCAAyAGQD''
     = Some [0xFF, 0xD8, 0xFF, 0xC0, 0x00, 0x11, 0x08, 0x00, 0x32, 0x00, 0x64, 0x03]
   \<and> get_image_dimensions_basic (Suc fuel)
     (Some [0xFF, 0xD8, 0xFF, 0xC0, 0x00, 0x11, 0x08, 0x00, 0x32, 0x00, 0x64, 0x03])
     = Returns (Some 100, Some 50)"
proof -
  have "get_image_dimensions (plain_env std_b64decode (\<lambda>p. None)) fuel
     ''data:image/jpeg;base64,/9j/wAARCAAyAGQD'' = Returns Unknown"
    unfolding get_image_dimensions_def
    by (simp only: inline_jpeg_is_data inline_jpeg_from_base64 if_True if_False option.case)
  then show ?thesis
    using inline_jpeg_bytes file_jpeg_decoded by blast
qed

section \<open>Properties of the geometry fixer\<close>

lemma default_directive:
  "contains ''none'' ''xMidYMid meet'' = False" "contains ''slice'' ''xMidYMid meet'' = False"
  by code_simp+

text \<open>
  Claim C10. A placement element whose reference, box and asset size are known is not
  skipped when it has no \<^verbatim>\<open>preserveAspectRatio\<close> attribute, and is then fitted under
  meet; with an attribute that does not contain \<^verbatim>\<open>none\<close> it is fitted under slice when
  the value contains \<^verbatim>\<open>slice\<close> and under meet otherwise. Fitted means: the calculator
  is called with that mode, and the element is rewritten unless the fitted size is
  within the tolerance.
\<close>

theorem fixer_mode_selection:
  assumes "get_href attrs = Some href"
    and "read_box env attrs = Some (x, y, w, h)" and "0 < w" and "0 < h"
    and "get_image_dimensions env fuel href = Returns (Some iw, Some ih)"
    and "attr_get attrs ''preserveAspectRatio'' = None \<and> mode = ''meet''
         \<or> (\<exists>p. attr_get attrs ''preserveAspectRatio'' = Some p \<and> \<not> contains ''none'' p
                \<and> mode = (if contains ''slice'' p then ''slice'' else ''meet''))"
  shows "fix_image env fuel dry_run attrs =
           bind_outcome (calculate_fitted_dimensions iw ih w h mode)
             (\<lambda>(nw, nh, ox, oy).
                if \<bar>nw - w\<bar> < 0.5 \<and> \<bar>nh - h\<bar> < 0.5 then Returns (attrs, 0)
                else Returns (if dry_run then attrs
                              else rewrite_box env attrs (x + ox) (y + oy) nw nh, 1))"
  using assms default_directive
  by (auto simp add: fix_image_def fix_with_dims_def Let_def)


lemma basic_wide_png:
  "get_image_dimensions_basic fuel (Some wide_png) = Returns (Some 200, Some 100)"
  unfolding wide_png_def
  using basic_png [of "[0, 0, 0, 13, 0x49, 0x48, 0x44, 0x52]" fuel 0 0 0 200 0 0 0 100 "[]"]
  by simp


lemma png_names:
  "\<not> starts_with ''data:'' ''wide.png''" "\<not> starts_with ''data:'' ''tall.png''"
  "lower (path_suffix ''wide.png'') \<noteq> ''.svg''" "lower (path_suffix ''tall.png'') \<noteq> ''.svg''"
  by code_simp+

lemma probe_wide_png:
  "get_image_dimensions (plain_env dec two_pngs) fuel ''wide.png'' = Returns (Some 200, Some 100)"
  by (simp add: get_image_dimensions_def plain_env_sel two_pngs_def raster_file_def png_names
      basic_wide_png)


lemma box_100_100:
  "read_box (plain_env dec fs) [(''href'', r), (''x'', ''0''), (''y'', ''0''), (''width'', ''100''),
      (''height'', ''100'')] = Some (0, 0, 100, 100)"
  "read_box (plain_env dec fs) [(''href'', r), (''x'', ''0''), (''y'', ''0''), (''width'', ''100''),
      (''height'', ''100''), (''preserveAspectRatio'', ''xMidYMid slice'')] = Some (0, 0, 100, 100)"
  by (simp_all add: read_box_def float_attr_def attr_get_def plain_env_sel std_float_def
      starts_with_def number_def digits1_def is_digit_def float_of_group_def nat_of_digits_def
      digit_val_def)


lemma href_of_example:
  "get_href [(''href'', ''wide.png''), (''x'', ''0''), (''y'', ''0''), (''width'', ''100''),
      (''height'', ''100'')] = Some ''wide.png''"
  "get_href [(''href'', ''wide.png''), (''x'', ''0''), (''y'', ''0''), (''width'', ''100''),
      (''height'', ''100''), (''preserveAspectRatio'', ''xMidYMid slice'')] = Some ''wide.png''"
  by code_simp+

lemma directive_of_example:
  "attr_get [(''href'', ''wide.png''), (''x'', ''0''), (''y'', ''0''), (''width'', ''100''),
      (''height'', ''100'')] ''preserveAspectRatio'' = None"
  "attr_get [(''href'', ''wide.png''), (''x'', ''0''), (''y'', ''0''), (''width'', ''100''),
      (''height'', ''100''), (''preserveAspectRatio'', ''xMidYMid slice'')]
      ''preserveAspectRatio'' = Some ''xMidYMid slice''"
  by code_simp+

lemma rewrite_example_meet:
  "rewrite_box (plain_env dec fs) [(''href'', ''wide.png''), (''x'', ''0''), (''y'', ''0''),
      (''width'', ''100''), (''height'', ''100'')] 0 25 100 50
   = [(''href'', ''wide.png''), (''x'', ''0.0''), (''y'', ''25.0''), (''width'', ''100.0''),
      (''height'', ''50.0'')]"
  unfolding rewrite_box_def plain_env_sel by code_simp

lemma rewrite_example_slice:
  "rewrite_box (plain_env dec fs) [(''href'', ''wide.png''), (''x'', ''0''), (''y'', ''0''),
      (''width'', ''100''), (''height'', ''100''), (''preserveAspectRatio'', ''xMidYMid slice'')]
      (- 50) 0 200 100
   = [(''href'', ''wide.png''), (''x'', ''-50.0''), (''y'', ''0.0''), (''width'', ''200.0''),
      (''height'', ''100.0'')]"
  unfolding rewrite_box_def plain_env_sel by code_simp

lemma slice_directive:
  "contains ''none'' ''xMidYMid slice'' = False" "contains ''slice'' ''xMidYMid slice'' = True"
  by code_simp+

lemma calc_wide_in_square:
  "calculate_fitted_dimensions 200 100 100 100 ''meet'' = Returns (100, 50, 0, 25)"
  "calculate_fitted_dimensions 200 100 100 100 ''slice'' = Returns (200, 100, - 50, 0)"
  by (simp_all add: calculate_fitted_dimensions_def py_fdiv_def)

theorem fixer_mode_selection_witness:
  "fix_image (plain_env std_b64decode two_pngs) 0 False
     [(''href'', ''wide.png''), (''x'', ''0''), (''y'', ''0''), (''width'', ''100''),
      (''height'', ''100'')]
   = Returns ([(''href'', ''wide.png''), (''x'', ''0.0''), (''y'', ''25.0''),
               (''width'', ''100.0''), (''height'', ''50.0'')], 1)
   \<and> fix_image (plain_env std_b64decode two_pngs) 0 False
     [(''href'', ''wide.png''), (''x'', ''0''), (''y'', ''0''), (''width'', ''100''),
      (''height'', ''100''), (''preserveAspectRatio'', ''xMidYMid slice'')]
   = Returns ([(''href'', ''wide.png''), (''x'', ''-50.0''), (''y'', ''0.0''),
               (''width'', ''200.0''), (''height'', ''100.0'')], 1)"
proof
  have a: "attr_get [(''href'', ''wide.png''), (''x'', ''0''), (''y'', ''0''), (''width'', ''100''),
      (''height'', ''100'')] ''preserveAspectRatio'' = None \<and> ''meet'' = ''meet''
     \<or> (\<exists>p. attr_get [(''href'', ''wide.png''), (''x'', ''0''), (''y'', ''0''), (''width'', ''100''),
      (''height'', ''100'')] ''preserveAspectRatio'' = Some p \<and> \<not> contains ''none'' p
                \<and> ''meet'' = (if contains ''slice'' p then ''slice'' else ''meet''))"
    by (simp add: directive_of_example)
  show "fix_image (plain_env std_b64decode two_pngs) 0 False
     [(''href'', ''wide.png''), (''x'', ''0''), (''y'', ''0''), (''width'', ''100''),
      (''height'', ''100'')]
   = Returns ([(''href'', ''wide.png''), (''x'', ''0.0''), (''y'', ''25.0''),
               (''width'', ''100.0''), (''height'', ''50.0'')], 1)"
    using fixer_mode_selection [OF href_of_example(1) box_100_100(1) _ _ probe_wide_png a,
        of std_b64decode 0 False]
    by (simp add: calc_wide_in_square rewrite_example_meet)
next
  have b: "attr_get [(''href'', ''wide.png''), (''x'', ''0''), (''y'', ''0''), (''width'', ''100''),
      (''height'', ''100''), (''preserveAspectRatio'', ''xMidYMid slice'')]
      ''preserveAspectRatio'' = None \<and> ''slice'' = ''meet''
     \<or> (\<exists>p. attr_get [(''href'', ''wide.png''), (''x'', ''0''), (''y'', ''0''), (''width'', ''100''),
      (''height'', ''100''), (''preserveAspectRatio'', ''xMidYMid slice'')]
      ''preserveAspectRatio'' = Some p \<and> \<not> contains ''none'' p
                \<and> ''slice'' = (if contains ''slice'' p then ''slice'' else ''meet''))"
    by (simp add: directive_of_example slice_directive)
  show "fix_image (plain_env std_b64decode two_pngs) 0 False
     [(''href'', ''wide.png''), (''x'', ''0''), (''y'', ''0''), (''width'', ''100''),
      (''height'', ''100''), (''preserveAspectRatio'', ''xMidYMid slice'')]
   = Returns ([(''href'', ''wide.png''), (''x'', ''-50.0''), (''y'', ''0.0''),
               (''width'', ''200.0''), (''height'', ''100.0'')], 1)"
    using fixer_mode_selection [OF href_of_example(2) box_100_100(2) _ _ probe_wide_png b,
        of std_b64decode 0 False]
    by (simp add: calc_wide_in_square rewrite_example_slice)
qed

section \<open>Properties of the asset embedder\<close>

lemma map_of_overwrite_other:
  "k' \<noteq> k \<Longrightarrow>
   map_of (map (\<lambda>(k', v'). if k' = k then (k', v) else (k', v')) attrs) k' = map_of attrs k'"
  by (induction attrs) auto

lemma map_of_overwrite_same:
  "k \<in> fst ` set attrs \<Longrightarrow>
   map_of (map (\<lambda>(k', v'). if k' = k then (k', v) else (k', v')) attrs) k = Some v"
  by (induction attrs) auto

lemma attr_get_set:
  "attr_get (attr_set attrs k v) k' = (if k' = k then Some v else attr_get attrs k')"
proof (cases "k \<in> fst ` set attrs")
  case True
  then show ?thesis
    by (simp add: attr_get_def attr_set_def map_of_overwrite_other map_of_overwrite_same)
next
  case False
  then have "map_of attrs k = None" by (simp add: map_of_eq_None_iff)
  with False show ?thesis
    by (auto simp add: attr_get_def attr_set_def map_add_def split: option.splits)
qed


lemma starts_with_append: "starts_with p (p @ s)"
  by (simp add: starts_with_def)

lemma group_tag: "ends_with ''image'' ''{http://www.w3.org/2000/svg}g'' = False"
  by code_simp

lemma embed_image_settled:
  assumes "case get_href attrs of None \<Rightarrow> True | Some h \<Rightarrow> h = [] \<or> starts_with ''data:'' h"
  shows "embed_image env dry_run has_parent attrs = (Keep attrs, 0, [])"
  using assms by (auto simp add: embed_image_def split: option.splits)

lemma embed_settled:
  "no_file_refs e \<Longrightarrow> embed_elem env dry_run in_tree has_parent e = (e, 0, [])"
  "list_all no_file_refs ks \<Longrightarrow> embed_elems env dry_run in_tree' ks = (ks, 0, [])"
proof (induction env dry_run in_tree has_parent e and env dry_run in_tree' ks
    rule: embed_elem_embed_elems.induct)
  case (1 env dry_run in_tree has_parent t attrs kids)
  from "1.prems" have img: "ends_with ''image'' t \<Longrightarrow>
      embed_image env dry_run has_parent attrs = (Keep attrs, 0, [])"
    by (auto intro: embed_image_settled)
  from "1.prems" have kids: "list_all no_file_refs kids" by simp
  have "embed_elems env dry_run in_tree kids = (kids, 0, [])"
    using "1.IH" img kids
    by (cases "ends_with ''image'' t") simp_all
  then show ?case
    using img by (cases "ends_with ''image'' t") simp_all
next
  case (2 env dry_run in_tree)
  then show ?case by simp
next
  case (3 env dry_run in_tree k ks)
  then show ?case by simp
qed


lemma embed_base64_cases:
  assumes "embed_base64 env attrs f href = (act, c, l)"
  shows "(act = Keep attrs \<and> c = 0)
       \<or> (\<exists>new. starts_with ''data:'' new
             \<and> act = Keep (if (case attr_get attrs xlink_href of None \<Rightarrow> False | Some v \<Rightarrow> v \<noteq> [])
                           then attr_set attrs xlink_href new else attr_set attrs ''href'' new))"
proof (cases "content f")
  case None
  with assms show ?thesis by (simp add: embed_base64_def)
next
  case (Some bs)
  let ?new = "''data:'' @ get_mime_type (fname f) @ '';base64,'' @ b64encode env bs"
  have "starts_with ''data:'' ?new" by (rule starts_with_append)
  moreover have "act = Keep (if (case attr_get attrs xlink_href of None \<Rightarrow> False | Some v \<Rightarrow> v \<noteq> [])
                           then attr_set attrs xlink_href ?new else attr_set attrs ''href'' ?new)"
    using assms Some by (auto simp add: embed_base64_def Let_def)
  ultimately show ?thesis by blast
qed

lemma embed_image_cases:
  assumes "embed_image env False has_parent attrs = (act, c, l)"
  shows "(act = Keep attrs \<and> c = 0)
       \<or> (\<exists>new. starts_with ''data:'' new
             \<and> act = Keep (if (case attr_get attrs xlink_href of None \<Rightarrow> False | Some v \<Rightarrow> v \<noteq> [])
                           then attr_set attrs xlink_href new else attr_set attrs ''href'' new))
       \<or> (\<exists>f g p. act = Replace g \<and> lookup env p = Some f \<and> build_group env attrs f = Some g)"
proof (cases "get_href attrs")
  case None
  with assms show ?thesis by (simp add: embed_image_def)
next
  case (Some href)
  show ?thesis
  proof (cases "href = [] \<or> starts_with ''data:'' href")
    case True
    with assms Some show ?thesis by (auto simp add: embed_image_def)
  next
    case inl: False
    show ?thesis
    proof (cases "lookup env (unquote_unescape env href)")
      case None
      with assms Some inl show ?thesis by (simp add: embed_image_def)
    next
      case f: (Some f)
      show ?thesis
      proof (cases "lower (path_suffix (fname f)) = ''.svg''")
        case False
        with assms Some inl f have "embed_base64 env attrs f href = (act, c, l)"
          by (simp add: embed_image_def)
        then show ?thesis using embed_base64_cases by blast
      next
        case svg: True
        show ?thesis
        proof (cases "build_group env attrs f")
          case None
          obtain a' c' l' where b: "embed_base64 env attrs f href = (a', c', l')"
            by (cases "embed_base64 env attrs f href") auto
          with assms Some inl f svg None have "a' = act" "c' = c"
            by (simp_all add: embed_image_def)
          with b show ?thesis using embed_base64_cases by blast
        next
          case g: (Some g)
          show ?thesis
          proof (cases has_parent)
            case True
            with assms Some inl f svg g have "act = Replace g"
              by (simp add: embed_image_def)
            with f g show ?thesis by blast
          next
            case False
            with assms Some inl f svg g show ?thesis by (simp add: embed_image_def)
          qed
        qed
      qed
    qed
  qed
qed


lemma data_nonempty: "starts_with ''data:'' s \<Longrightarrow> s \<noteq> []"
  by (auto simp add: starts_with_def)

lemma get_href_embedded:
  assumes "starts_with ''data:'' new"
  shows "get_href (if (case attr_get attrs xlink_href of None \<Rightarrow> False | Some v \<Rightarrow> v \<noteq> [])
                   then attr_set attrs xlink_href new else attr_set attrs ''href'' new) = Some new"
proof -
  have ne: "new \<noteq> []" using assms by (rule data_nonempty)
  have k: "xlink_href \<noteq> ''href''" by (simp add: xlink_href_def)
  show ?thesis
    using ne k by (auto simp add: get_href_def attr_get_set split: option.splits)
qed

lemma embed_image_again:
  assumes "embed_image env False has_parent attrs = (Keep attrs', c, l)"
  shows "\<exists>l'. embed_image env False has_parent attrs' = (Keep attrs', 0, l')"
proof -
  from embed_image_cases [OF assms]
  consider "attrs' = attrs" "c = 0"
    | new where "starts_with ''data:'' new"
        "attrs' = (if (case attr_get attrs xlink_href of None \<Rightarrow> False | Some v \<Rightarrow> v \<noteq> [])
                   then attr_set attrs xlink_href new else attr_set attrs ''href'' new)"
    by auto
  then show ?thesis
  proof cases
    case 1
    with assms show ?thesis by auto
  next
    case 2
    then have "get_href attrs' = Some new" by (simp only: get_href_embedded)
    with 2(1) have "embed_image env False has_parent attrs' = (Keep attrs', 0, [])"
      by (simp add: embed_image_def)
    then show ?thesis by blast
  qed
qed

lemma build_group_shape:
  assumes "build_group env attrs f = Some g"
  shows "\<exists>t a. svg_tree f = Some t \<and> g = Elem ''{http://www.w3.org/2000/svg}g'' a (children t)"
  using assms
  by (auto simp add: build_group_def Let_def split: Option.bind_splits prod.splits)

lemma replaced_settled:
  assumes files: "\<forall>p f t. lookup env p = Some f \<longrightarrow> svg_tree f = Some t
                    \<longrightarrow> list_all no_file_refs (children t)"
    and "embed_image env False has_parent attrs = (Replace g, c, l)"
  shows "no_file_refs g"
proof -
  from embed_image_cases [OF assms(2)] obtain f p where
    f: "lookup env p = Some f" and g: "build_group env attrs f = Some g"
    by auto
  from build_group_shape [OF g] obtain t a where
    t: "svg_tree f = Some t" and s: "g = Elem ''{http://www.w3.org/2000/svg}g'' a (children t)"
    by blast
  from files f t have "list_all no_file_refs (children t)" by blast
  with s show ?thesis by (simp add: group_tag)
qed


lemma embed_tree_again:
  "\<forall>p f t. lookup env p = Some f \<longrightarrow> svg_tree f = Some t
       \<longrightarrow> list_all no_file_refs (children t)
     \<Longrightarrow> \<not> dry_run \<Longrightarrow> in_tree \<Longrightarrow> embed_elem env dry_run in_tree has_parent e = (e', n, l)
     \<Longrightarrow> \<exists>l'. embed_elem env False True has_parent e' = (e', 0, l')"
  "\<forall>p f t. lookup env p = Some f \<longrightarrow> svg_tree f = Some t
       \<longrightarrow> list_all no_file_refs (children t)
     \<Longrightarrow> \<not> dry_run \<Longrightarrow> in_tree' \<Longrightarrow> embed_elems env dry_run in_tree' ks = (ks', m, lk)
     \<Longrightarrow> \<exists>l'. embed_elems env False True ks' = (ks', 0, l')"
proof (induction env dry_run in_tree has_parent e and env dry_run in_tree' ks
    arbitrary: e' n l and ks' m lk rule: embed_elem_embed_elems.induct)
  case (1 env dry_run in_tree has_parent t attrs kids)
  note files = "1.prems"(1)
  from "1.prems" have dr: "dry_run = False" and it: "in_tree = True" by simp_all
  obtain act c0 l0 where act: "(if ends_with ''image'' t then embed_image env False has_parent attrs
            else (Keep attrs, 0, [])) = (act, c0, l0)"
    by (metis prod_cases3)
  obtain kids' ck lk where kids: "embed_elems env False
      (case act of Keep a \<Rightarrow> True | Replace g \<Rightarrow> False) kids = (kids', ck, lk)"
    by (metis prod_cases3)
  from "1.prems"(4) act kids dr it
  have e': "e' = (case act of Keep a \<Rightarrow> Elem t a kids' | Replace g \<Rightarrow> g)"
    by (auto simp del: embed_elems.simps)
  show ?case
  proof (cases act)
    case (Keep a)
    have act_dr: "(act, c0, l0) = (if ends_with ''image'' t
          then embed_image env dry_run has_parent attrs else (Keep attrs, 0, []))"
      unfolding dr act ..
    have it': "case act of Keep a \<Rightarrow> in_tree | Replace g \<Rightarrow> False"
      using Keep it by simp
    have k1: "embed_elems env dry_run (case act of Keep a \<Rightarrow> in_tree | Replace g \<Rightarrow> False) kids
                = (kids', ck, lk)"
      using kids dr it Keep by simp
    have "\<exists>l'. embed_elems env False True kids' = (kids', 0, l')"
      by (rule "1.IH" [OF act_dr refl files "1.prems"(2) it' k1])
    then obtain l2 where k2: "embed_elems env False True kids' = (kids', 0, l2)" by blast
    have "\<exists>l1. (if ends_with ''image'' t then embed_image env False has_parent a
            else (Keep a, 0, [])) = (Keep a, 0, l1)"
    proof (cases "ends_with ''image'' t")
      case True
      with act Keep have "embed_image env False has_parent attrs = (Keep a, c0, l0)" by simp
      from embed_image_again [OF this] True show ?thesis by simp
    next
      case False
      then show ?thesis by simp
    qed
    then obtain l1 where "(if ends_with ''image'' t then embed_image env False has_parent a
            else (Keep a, 0, [])) = (Keep a, 0, l1)" by blast
    with k2 e' Keep show ?thesis by simp
  next
    case (Replace g)
    with act have img: "ends_with ''image'' t"
      and "embed_image env False has_parent attrs = (Replace g, c0, l0)"
      by (auto split: if_splits)
    from replaced_settled [OF files this(2)] have "no_file_refs g" .
    with e' Replace show ?thesis by (simp add: embed_settled)
  qed
next
  case (2 env dry_run in_tree)
  then show ?case by simp
next
  case (3 env dry_run in_tree k ks)
  from "3.prems" have dr: "dry_run = False" and it: "in_tree = True" by simp_all
  obtain k' c1 l1 where k: "embed_elem env dry_run in_tree in_tree k = (k', c1, l1)"
    by (metis prod_cases3)
  obtain ks2 c2 l2 where ks: "embed_elems env dry_run in_tree ks = (ks2, c2, l2)"
    by (metis prod_cases3)
  from "3.prems"(4) k ks have ks': "ks' = k' # ks2" by simp
  from "3.IH"(1) [OF "3.prems"(1,2,3) k] dr it
  obtain la where a: "embed_elem env False True True k' = (k', 0, la)" by auto
  from "3.IH"(2) [OF k [symmetric] refl "3.prems"(1,2,3) ks]
  obtain lb where b: "embed_elems env False True ks2 = (ks2, 0, lb)" by auto
  from a b ks' show ?case by simp
qed


text \<open>
  Claim C7, amended. A placement element whose reference is inline is left as it is.
  When no SVG file of the directory contains a placement element that refers to a
  file, a second run of the embedder after a first run that was not a dry run embeds
  nothing and leaves the document as the first run left it.
\<close>

theorem embedder_second_run:
  assumes "\<forall>p f t. lookup env p = Some f \<longrightarrow> svg_tree f = Some t
             \<longrightarrow> list_all no_file_refs (children t)"
    and "embed_images_in_svg env False doc = (doc', n, l)"
  shows "\<exists>l'. embed_images_in_svg env False doc' = (doc', 0, l')"
proof (cases doc)
  case None
  with assms(2) show ?thesis by (simp add: embed_images_in_svg_def)
next
  case (Some rt)
  obtain rt' c m where r: "embed_elem env False True False rt = (rt', c, m)"
    by (metis prod_cases3)
  with assms(2) Some have d: "doc' = Some rt'" by (simp add: embed_images_in_svg_def)
  from embed_tree_again(1) [OF assms(1) _ _ r]
  obtain l' where "embed_elem env False True False rt' = (rt', 0, l')" by auto
  with d show ?thesis by (simp add: embed_images_in_svg_def)
qed

lemma example_names:
  "lower (path_suffix ''icon.svg'') = ''.svg''" "lower (path_suffix ''shape.svg'') = ''.svg''"
  "get_mime_type ''wide.png'' = ''image/png''"
  "ends_with ''image'' image_tag = True" "ends_with ''image'' svg_tag = False"
  "ends_with ''image'' ''{http://www.w3.org/2000/svg}rect'' = False"
  "starts_with ''data:'' ''icon.svg'' = False" "starts_with ''data:'' ''shape.svg'' = False"
  "starts_with ''data:'' ''wide.png'' = False" "starts_with ''data:'' ''missing.png'' = False"
  by code_simp+


lemma fmt_fixed_examples:
  "std_fmt_fixed 1 10 = ''10.0''" "std_fmt_fixed 1 20 = ''20.0''"
  by (simp_all add: std_fmt_fixed_def round_half_even_def show_nat.simps digit_char_def Let_def)

lemma replicate_3: "replicate 3 c = [c, c, c]"
  by (simp add: numeral_3_eq_3)

lemma fmt_fixed_example4:
  "std_fmt_fixed 4 1 = ''1.0000''"
  by (simp add: std_fmt_fixed_def round_half_even_def show_nat.simps digit_char_def Let_def
      replicate_3)

lemma example_transform:
  "std_fmt_transform 10 20 1 1 = ''translate(10.0,20.0) scale(1.0000,1.0000)''"
  unfolding std_fmt_transform_def fmt_fixed_examples fmt_fixed_example4 by simp

lemma std_float_examples:
  "std_float ''10'' = Some 10" "std_float ''20'' = Some 20" "std_float ''50'' = Some 50"
  by (simp_all add: std_float_def starts_with_def number_def digits1_def is_digit_def
      float_of_group_def nat_of_digits_def digit_val_def)

lemma placed_box:
  "read_box (plain_env dec fs) ((''href'', r) # [(''x'', ''10''), (''y'', ''20''),
       (''width'', ''50''), (''height'', ''50'')]) = Some (10, 20, 50, 50)"
  "read_box (plain_env dec fs) ((''id'', i) # (''href'', r) # [(''x'', ''10''), (''y'', ''20''),
       (''width'', ''50''), (''height'', ''50'')]) = Some (10, 20, 50, 50)"
  by (simp_all add: read_box_def float_attr_def attr_get_def plain_env_sel std_float_examples)

lemma placed_href:
  "get_href ((''href'', r) # [(''x'', a), (''y'', b), (''width'', c), (''height'', d)])
     = Some r"
  "get_href ((''id'', i) # (''href'', r) # [(''x'', a), (''y'', b), (''width'', c), (''height'', d)])
     = Some r"
  "get_href [(''href'', r)] = Some r"
  by (simp_all add: get_href_def attr_get_def xlink_href_def)


lemma example_file_sel:
  "fname (svg_file name t) = name" "content (svg_file name t) = Some []"
  "svg_tree (svg_file name t) = Some t" "svg_dims (svg_file name t) = Unknown"
  "fname (raster_file name bs) = name" "content (raster_file name bs) = Some bs"
  "svg_tree (raster_file name bs) = None" "svg_dims (raster_file name bs) = Unknown"
  by (simp_all add: svg_file_def raster_file_def)

lemma group_of_icon:
  "build_group (plain_env dec fs) [(''href'', ''icon.svg''), (''x'', ''10''), (''y'', ''20''),
       (''width'', ''50''), (''height'', ''50'')] (svg_file ''icon.svg'' t)
   = Some (Elem ''{http://www.w3.org/2000/svg}g''
             [(''transform'', ''translate(10.0,20.0) scale(1.0000,1.0000)'')] (children t))"
  by (simp add: build_group_def placed_box example_file_sel Unknown_def truthy_def Let_def
      xlink_href_def attr_set_def plain_env_sel example_transform)

lemma embed_wide_png:
  "embed_image (plain_env dec nested_files) False hp [(''href'', ''wide.png'')]
   = (Keep [(''href'', ''data:image/png;base64,'' @ std_b64encode wide_png)], 1,
      [Ok_embedded ''wide.png''])"
  by (simp add: embed_image_def placed_href example_names png_names plain_env_sel
      nested_files_def example_file_sel embed_base64_def attr_get_def attr_set_def
      xlink_href_def)

text \<open>
  Claim C7 as stated fails: the embedder is run twice on a document that places an
  SVG file which itself places a PNG file. The first run inlines the SVG file, and the
  placement element that comes with it is embedded by the second run.
\<close>

theorem embedder_second_run_counterexample:
  "embed_images_in_svg (plain_env std_b64decode nested_files) False (Some nested_doc)
     = (Some (Elem svg_tag []
               [Elem ''{http://www.w3.org/2000/svg}g''
                  [(''transform'', ''translate(10.0,20.0) scale(1.0000,1.0000)'')]
                  [Elem image_tag [(''href'', ''wide.png'')] []]]),
        1, [Ok_inlined ''icon.svg''])
   \<and> embed_images_in_svg (plain_env std_b64decode nested_files) False
       (Some (Elem svg_tag []
               [Elem ''{http://www.w3.org/2000/svg}g''
                  [(''transform'', ''translate(10.0,20.0) scale(1.0000,1.0000)'')]
                  [Elem image_tag [(''href'', ''wide.png'')] []]]))
     = (Some (Elem svg_tag []
               [Elem ''{http://www.w3.org/2000/svg}g''
                  [(''transform'', ''translate(10.0,20.0) scale(1.0000,1.0000)'')]
                  [Elem image_tag
                     [(''href'', ''data:image/png;base64,'' @ std_b64encode wide_png)] []]]),
        1, [Ok_embedded ''wide.png''])"
proof
  have "embed_image (plain_env std_b64decode nested_files) False True
          [(''href'', ''icon.svg''), (''x'', ''10''), (''y'', ''20''), (''width'', ''50''),
           (''height'', ''50'')]
        = (Replace (Elem ''{http://www.w3.org/2000/svg}g''
             [(''transform'', ''translate(10.0,20.0) scale(1.0000,1.0000)'')]
             [Elem image_tag [(''href'', ''wide.png'')] []]), 1, [Ok_inlined ''icon.svg''])"
    by (simp add: embed_image_def placed_href example_names plain_env_sel nested_files_def
        example_file_sel group_of_icon image_tag_def)
  then show "embed_images_in_svg (plain_env std_b64decode nested_files) False (Some nested_doc)
     = (Some (Elem svg_tag []
               [Elem ''{http://www.w3.org/2000/svg}g''
                  [(''transform'', ''translate(10.0,20.0) scale(1.0000,1.0000)'')]
                  [Elem image_tag [(''href'', ''wide.png'')] []]]),
        1, [Ok_inlined ''icon.svg''])"
    by (simp add: embed_images_in_svg_def nested_doc_def example_names embed_wide_png)
next
  show "embed_images_in_svg (plain_env std_b64decode nested_files) False
       (Some (Elem svg_tag []
               [Elem ''{http://www.w3.org/2000/svg}g''
                  [(''transform'', ''translate(10.0,20.0) scale(1.0000,1.0000)'')]
                  [Elem image_tag [(''href'', ''wide.png'')] []]]))
     = (Some (Elem svg_tag []
               [Elem ''{http://www.w3.org/2000/svg}g''
                  [(''transform'', ''translate(10.0,20.0) scale(1.0000,1.0000)'')]
                  [Elem image_tag
                     [(''href'', ''data:image/png;base64,'' @ std_b64encode wide_png)] []]]),
        1, [Ok_embedded ''wide.png''])"
    by (simp add: embed_images_in_svg_def example_names group_tag embed_wide_png)
qed


lemma shape_files_settled:
  "\<forall>p f t. lookup (plain_env dec shape_files) p = Some f \<longrightarrow> svg_tree f = Some t
       \<longrightarrow> list_all no_file_refs (children t)"
  by (auto simp add: plain_env_sel shape_files_def example_file_sel example_names
      split: if_splits)

lemma group_of_shape:
  "build_group (plain_env dec fs) [(''id'', ''a''), (''href'', ''shape.svg''), (''x'', ''10''),
       (''y'', ''20''), (''width'', ''50''), (''height'', ''50'')] (svg_file ''shape.svg'' t)
   = Some (Elem ''{http://www.w3.org/2000/svg}g''
             [(''id'', ''a''), (''transform'', ''translate(10.0,20.0) scale(1.0000,1.0000)'')]
             (children t))"
  by (simp add: build_group_def placed_box example_file_sel Unknown_def truthy_def Let_def
      xlink_href_def attr_set_def plain_env_sel example_transform)

lemma shape_doc_first_run:
  "embed_images_in_svg (plain_env std_b64decode shape_files) False (Some shape_doc)
     = (Some (Elem svg_tag []
               [Elem ''{http://www.w3.org/2000/svg}g''
                  [(''id'', ''a''), (''transform'', ''translate(10.0,20.0) scale(1.0000,1.0000)'')]
                  [Elem ''{http://www.w3.org/2000/svg}rect'' [(''width'', ''4'')] []],
                Elem image_tag [(''href'', ''data:image/png;base64,'' @ std_b64encode wide_png)] [],
                Elem image_tag [(''href'', ''missing.png'')] []]),
        2, [Ok_inlined ''shape.svg'', Ok_embedded ''wide.png'', Warn_not_found ''missing.png''])"
  by (simp add: embed_images_in_svg_def shape_doc_def example_names png_names embed_image_def
      placed_href plain_env_sel shape_files_def example_file_sel group_of_shape
      embed_base64_def attr_get_def attr_set_def xlink_href_def)

theorem embedder_second_run_witness:
  "\<exists>l'. embed_images_in_svg (plain_env std_b64decode shape_files) False
       (Some (Elem svg_tag []
               [Elem ''{http://www.w3.org/2000/svg}g''
                  [(''id'', ''a''), (''transform'', ''translate(10.0,20.0) scale(1.0000,1.0000)'')]
                  [Elem ''{http://www.w3.org/2000/svg}rect'' [(''width'', ''4'')] []],
                Elem image_tag [(''href'', ''data:image/png;base64,'' @ std_b64encode wide_png)] [],
                Elem image_tag [(''href'', ''missing.png'')] []]))
     = (Some (Elem svg_tag []
               [Elem ''{http://www.w3.org/2000/svg}g''
                  [(''id'', ''a''), (''transform'', ''translate(10.0,20.0) scale(1.0000,1.0000)'')]
                  [Elem ''{http://www.w3.org/2000/svg}rect'' [(''width'', ''4'')] []],
                Elem image_tag [(''href'', ''data:image/png;base64,'' @ std_b64encode wide_png)] [],
                Elem image_tag [(''href'', ''missing.png'')] []]),
        0, l')"
  by (rule embedder_second_run [OF shape_files_settled shape_doc_first_run])

text \<open>
  Claim C9. In a document whose root has two placement elements, the first referring to
  a file that does not exist and the second to an existing raster file, the embedder
  prints a warning for the first and leaves it as it is, and goes on to the second,
  whose reference becomes the inline representation of the file; the count is 1.
\<close>

theorem missing_file_is_skipped:
  assumes "\<not> ends_with ''image'' t" and "ends_with ''image'' t1" and "ends_with ''image'' t2"
    and "get_href a1 = Some h1" and "h1 \<noteq> []" and "\<not> starts_with ''data:'' h1"
    and "lookup env (unquote_unescape env h1) = None"
    and "get_href a2 = Some h2" and "h2 \<noteq> []" and "\<not> starts_with ''data:'' h2"
    and "lookup env (unquote_unescape env h2) = Some f"
    and "lower (path_suffix (fname f)) \<noteq> ''.svg''" and "content f = Some bs"
  shows "embed_images_in_svg env False (Some (Elem t attrs [Elem t1 a1 [], Elem t2 a2 []]))
         = (Some (Elem t attrs
                    [Elem t1 a1 [],
                     Elem t2 (if (case attr_get a2 xlink_href of None \<Rightarrow> False | Some v \<Rightarrow> v \<noteq> [])
                              then attr_set a2 xlink_href
                                     (''data:'' @ get_mime_type (fname f) @ '';base64,''
                                        @ b64encode env bs)
                              else attr_set a2 ''href''
                                     (''data:'' @ get_mime_type (fname f) @ '';base64,''
                                        @ b64encode env bs)) []]),
            1, [Warn_not_found h1, Ok_embedded h2])"
proof -
  have m: "embed_image env False True a1 = (Keep a1, 0, [Warn_not_found h1])"
    using assms by (simp add: embed_image_def)
  have v: "embed_image env False True a2
             = (Keep (if (case attr_get a2 xlink_href of None \<Rightarrow> False | Some v \<Rightarrow> v \<noteq> [])
                      then attr_set a2 xlink_href
                             (''data:'' @ get_mime_type (fname f) @ '';base64,'' @ b64encode env bs)
                      else attr_set a2 ''href''
                             (''data:'' @ get_mime_type (fname f) @ '';base64,'' @ b64encode env bs)),
                1, [Ok_embedded h2])"
    using assms by (simp add: embed_image_def embed_base64_def Let_def)
  show ?thesis
    using assms(1,2,3) by (simp add: embed_images_in_svg_def m v)
qed

theorem missing_file_is_skipped_witness:
  "embed_images_in_svg (plain_env std_b64decode two_pngs) False
     (Some (Elem svg_tag [] [Elem image_tag [(''href'', ''missing.png'')] [],
                             Elem image_tag [(''href'', ''wide.png'')] []]))
   = (Some (Elem svg_tag []
              [Elem image_tag [(''href'', ''missing.png'')] [],
               Elem image_tag [(''href'', ''data:image/png;base64,'' @ std_b64encode wide_png)] []]),
      1, [Warn_not_found ''missing.png'', Ok_embedded ''wide.png''])"
  using missing_file_is_skipped [of svg_tag image_tag image_tag "[(''href'', ''missing.png'')]"
      "''missing.png''" "plain_env std_b64decode two_pngs" "[(''href'', ''wide.png'')]"
      "''wide.png''" "raster_file ''wide.png'' wide_png" wide_png "[]"]
  by (simp add: example_names png_names placed_href plain_env_sel two_pngs_def example_file_sel
      attr_get_def attr_set_def xlink_href_def)

section \<open>A second run of the geometry fixer\<close>













subsection \<open>Writing a number with one decimal place and reading it back\<close>















subsection \<open>Documents\<close>
















section \<open>The prober on inline SVG\<close>































end
